theory Spec2Isabelle
  imports Main
begin

section \<open>Strings\<close>

text \<open>
  Go strings are byte sequences; they are modelled as \<open>string\<close> (a list of 8-bit characters).

  \<open>forbiddenSymbols = regexp.MustCompile("[^-a-zA-Z0-9]+")\<close> (services.go, line 51): a byte is
  forbidden when it is none of \<open>-\<close>, \<open>a..z\<close>, \<open>A..Z\<close>, \<open>0..9\<close>. Every byte of a multi-byte
  UTF-8 sequence (and every invalid byte, which the regexp engine reads as U+FFFD) lies outside
  the class, so maximal runs of forbidden runes and maximal runs of forbidden bytes coincide.
\<close>

definition isForbidden :: "char \<Rightarrow> bool" where
  "isForbidden c = (let n = (of_char c :: nat) in
     \<not> (c = CHR ''-'' \<or> (97 \<le> n \<and> n \<le> 122) \<or> (65 \<le> n \<and> n \<le> 90) \<or> (48 \<le> n \<and> n \<le> 57)))"

text \<open>
  \<open>forbiddenSymbols.ReplaceAllString(src, repl)\<close>: scanning from the left, every maximal run of
  forbidden bytes (the greedy \<open>+\<close>) is replaced by \<open>repl\<close>. The only replacement text in the
  source is \<open>"_"\<close>, which contains no \<open>$\<close> expansion.
\<close>

function ReplaceAllString :: "string \<Rightarrow> string \<Rightarrow> string" where
  "ReplaceAllString [] repl = []"
| "ReplaceAllString (c # cs) repl =
     (if isForbidden c then repl @ ReplaceAllString (dropWhile isForbidden cs) repl
      else c # ReplaceAllString cs repl)"
  by pat_completeness auto
termination
  by (relation "measure (\<lambda>(s, r). length s)") (auto simp: less_Suc_eq_le length_dropWhile_le)

text \<open>
  \<open>strings.ToLower\<close> first scans the string for a byte \<open>>= utf8.RuneSelf\<close> (0x80). For a string
  without one (\<open>isASCII\<close>) it moves \<open>A..Z\<close> to \<open>a..z\<close> (\<open>c += 'a' - 'A'\<close>) and keeps every other
  byte: that path is modelled here, exactly. For any other string Go maps whole runes through
  the Unicode tables, which is not modelled: \<open>ToLower\<close> below is \<open>strings.ToLower\<close> on ASCII
  strings only, and every statement about an identifier that lower-cases a name assumes the
  name to be ASCII. In \<open>normalizeID\<close> the argument of \<open>ToLower\<close> is the output of the
  replacement and therefore ASCII, so \<open>normalizeID\<close> is modelled exactly for every input.
\<close>

definition isASCII :: "string \<Rightarrow> bool" where
  "isASCII s = (\<forall>c\<in>set s. (of_char c :: nat) < 128)"

definition toLowerChar :: "char \<Rightarrow> char" where
  "toLowerChar c = (let n = (of_char c :: nat) in
     if 65 \<le> n \<and> n \<le> 90 then char_of (n + 32) else c)"

definition ToLower :: "string \<Rightarrow> string" where
  "ToLower s = map toLowerChar s"

text \<open>services.go, lines 164-166.\<close>

definition normalizeID :: "string \<Rightarrow> string" where
  "normalizeID ident = ToLower (ReplaceAllString ident ''_'')"

text \<open>The alphabet of normalized identifiers: lowercase letters, digits, \<open>-\<close> and \<open>_\<close>.\<close>

definition isLowerDigitDashUnderscore :: "char \<Rightarrow> bool" where
  "isLowerDigitDashUnderscore c = (let n = (of_char c :: nat) in
     (97 \<le> n \<and> n \<le> 122) \<or> (48 \<le> n \<and> n \<le> 57) \<or> c = CHR ''-'' \<or> c = CHR ''_'')"

text \<open>
  A string is settled when each forbidden byte in it is an underscore standing alone, that is,
  followed by the end of the string or by a byte that is not forbidden.
\<close>

fun settled :: "string \<Rightarrow> bool" where
  "settled [] = True"
| "settled (c # cs) =
     (if isForbidden c
      then c = CHR ''_'' \<and> (case cs of [] \<Rightarrow> True | d # _ \<Rightarrow> \<not> isForbidden d) \<and> settled cs
      else settled cs)"

definition dashFree :: "string \<Rightarrow> bool" where
  "dashFree s = (CHR ''-'' \<notin> set s)"

section \<open>Identifiers (services.go, lines 18-19 and 260-279)\<close>

text \<open>\<open>atlas.InstanceSize\<close>: the sources read its \<open>Name\<close> only.\<close>

record InstanceSize =
  is_Name :: string

definition idPrefix :: string where
  "idPrefix = ''aosb-cluster''"

definition serviceIDForProvider :: "string \<Rightarrow> string" where
  "serviceIDForProvider providerName = idPrefix @ ''-service-'' @ ToLower providerName"

definition planIDForInstanceSize :: "string \<Rightarrow> InstanceSize \<Rightarrow> string \<Rightarrow> string" where
  "planIDForInstanceSize providerName instanceSize groupID =
     (let result = idPrefix @ ''-plan-'' @ ToLower providerName @ ''-'' @ ToLower (is_Name instanceSize)
      in if groupID = '''' then result else result @ ''-'' @ groupID)"

definition planIDForDynamicPlan :: "string \<Rightarrow> string \<Rightarrow> string" where
  "planIDForDynamicPlan providerName planName =
     idPrefix @ ''-plan-'' @ ToLower providerName @ ''-'' @ ToLower planName"

section \<open>Data model\<close>

text \<open>
  The broker's operating mode. The type \<open>Mode\<close> is declared in a file of the repository that
  is not among the sources; the four named constants are the ones the sources switch on, and
  \<open>OtherMode\<close> stands for every other value of the type, which the \<open>default\<close> branches of
  \<open>buildPlansForProvider\<close> and \<open>getClient\<close> answer with a panic.
\<close>

datatype Mode = BasicAuth | MultiGroup | MultiGroupAutoPlans | DynamicPlans | OtherMode nat

text \<open>
  Errors as values. \<open>External\<close> carries the errors of collaborators (backend, metadata store,
  JSON and YAML decoders, template engine, HTTP transport); the others are the errors the
  sources create themselves.
\<close>

datatype error =
    ErrNoDocuments
  | External string
  | PlanNotFound string
  | NoValidTemplate
  | WrongMetadataType
  | GroupIDNotFound string
  | GroupIDWrongType
  | ProjectIDNotInParams
  | MissingProject
  | CredentialsNotFound string

text \<open>
  A call returns, panics, or ends the process (\<open>logger.Fatalw\<close> logs and exits). A function
  that changes the broker returns the changed broker beside its result.
\<close>

datatype 'a result = Returns 'a | Panics string | Exits string

definition nilDereference :: string where
  "nilDereference = ''invalid memory address or nil pointer dereference''"

text \<open>
  \<open>atlas.Provider\<close>: \<open>InstanceSizes\<close> is a Go map from size name to \<open>InstanceSize\<close> (it is
  indexed by a string in services.go, line 249). It is an association list here, in the order
  in which the runtime iterates over the map; lookups go through \<open>map_of\<close>.
\<close>

record Provider =
  prov_Name :: string
  prov_InstanceSizes :: "(string \<times> InstanceSize) list"

text \<open>\<open>credentials.Credentials\<close>, with the fields the sources read: the tenant-keyed key pairs.\<close>

record APIKey =
  PublicKey :: string
  PrivateKey :: string
  Desc :: string

record Credentials =
  Projects :: "(string \<times> APIKey) list"

text \<open>
  \<open>dynamicplans.Plan\<close> and the parts of the Atlas client's \<open>Project\<close> and \<open>Cluster\<close> that the
  sources read. Pointers are options.
\<close>

record ProviderSettings =
  ProviderName :: string
  InstanceSizeName :: string

record Cluster =
  cl_ProviderSettings :: "ProviderSettings option"

record Project =
  proj_ID :: string

record Plan =
  dp_Name :: string
  dp_Description :: string
  dp_Free :: "bool option"
  dp_Project :: "Project option"
  dp_Cluster :: "Cluster option"

text \<open>
  \<open>dynamicplans.Context\<close>, the value templates are rendered against and request parameters are
  decoded into. The sources read \<open>params.Project.ID\<close> and assign \<open>ctx.Cluster.ProviderSettings\<close>.
\<close>

record Context =
  ctx_Project :: Project
  ctx_Cluster :: Cluster
  ctx_Credentials :: "Credentials option"

text \<open>
  Modelled from the spec: \<open>dynamicplans.DefaultCtx\<close> is not among the sources. The context
  exposes the credentials; it names no tenant and no provider until one is decoded or assigned.
\<close>

definition DefaultCtx :: "Credentials option \<Rightarrow> Context" where
  "DefaultCtx creds =
     \<lparr>ctx_Project = \<lparr>proj_ID = ''''\<rparr>,
      ctx_Cluster = \<lparr>cl_ProviderSettings = None\<rparr>,
      ctx_Credentials = creds\<rparr>"

text \<open>
  \<open>dynamicplans.TemplateContainer\<close>: a named template; \<open>Execute\<close> renders it against a context
  and gives the rendered text or an error.
\<close>

record Template =
  tpl_Name :: string
  tpl_Execute :: "Context \<Rightarrow> error + string"

text \<open>
  \<open>domain.ServicePlan\<close> and \<open>domain.Service\<close> of the broker API library. \<open>Metadata\<close> is a
  pointer to a struct whose \<open>AdditionalMetadata\<close> is a \<open>map[string]interface{}\<close>: an optional
  association list of tagged values. A service's own \<open>Metadata\<close> is \<open>nil\<close> throughout and left
  out.
\<close>

datatype meta = MInstanceSize InstanceSize | MString string | MTemplate Template

record ServicePlan =
  sp_ID :: string
  sp_Name :: string
  sp_Description :: string
  sp_Free :: "bool option"
  sp_Metadata :: "(string \<times> meta) list option"

record Service =
  svc_ID :: string
  svc_Name :: string
  svc_Description :: string
  svc_Bindable :: bool
  svc_InstancesRetrievable :: bool
  svc_BindingsRetrievable :: bool
  svc_PlanUpdatable :: bool
  svc_Plans :: "ServicePlan list"

text \<open>The catalog: the services in order, and the two lookups.\<close>

record catalog =
  cat_services :: "Service list"
  cat_providers :: "string \<rightharpoonup> Provider"
  cat_plans :: "string \<rightharpoonup> ServicePlan"

datatype log_entry = LogInfo string | LogError string string | LogFatal string

text \<open>
  The broker (broker.go, lines 28-36). \<open>logger\<close> holds the entries written so far; the
  whitelist is a map that may be \<open>nil\<close>; \<open>credentials\<close> and \<open>catalog\<close> are pointers. \<open>fetched\<close>
  is a ghost field: the provider names requested from the backend, in order. The handle of
  the metadata store (\<open>client\<close>) is represented by the environment's \<open>GetInstance\<close>.
\<close>

record Broker =
  logger :: "log_entry list"
  whitelist :: "(string \<rightharpoonup> string list) option"
  credentials :: "Credentials option"
  baseURL :: string
  mode :: Mode
  catalog :: "catalog option"
  fetched :: "string list"

text \<open>Values held in the metadata store: a BSON document (\<open>primitive.D\<close>) or anything else.\<close>

datatype bson = BString string | BOther

datatype parameters = PrimitiveD "(string \<times> bson) list" | OtherParameters

record HTTPClient =
  hc_PublicKey :: string
  hc_PrivateKey :: string

record AtlasClient =
  ac_HTTP :: HTTPClient
  ac_BaseURL :: string

text \<open>
  The collaborators the sources call, as parameters:
  \<^item> \<open>rootURL\<close>: \<open>url.Parse\<close> of the base URL, its path cleared, printed again; \<open>None\<close> when
    parsing fails and leaves a \<open>nil\<close> URL;
  \<^item> \<open>GetProvider root name\<close>: the backend's answer to \<open>atlas.NewClient(root, ...).GetProvider(name)\<close>;
  \<^item> \<open>FromEnv\<close>: the templates \<open>dynamicplans.FromEnv()\<close> loads;
  \<^item> \<open>yamlDecode\<close>, \<open>jsonUnmarshal\<close>: the decoders (\<open>jsonUnmarshal raw target\<close> gives the
    target after decoding into it);
  \<^item> \<open>GetInstance\<close>: the \<open>Parameters\<close> of the persisted instance;
  \<^item> \<open>digestClient\<close>, \<open>atlasNew\<close>: \<open>digest.NewTransport(pub, priv).Client()\<close> and
    \<open>mongodbatlas.New(hc, SetBaseURL(url))\<close>;
  \<^item> \<open>quoted\<close>: the text \<open>%q\<close> prints for a string.
\<close>

record env =
  rootURL :: "string \<Rightarrow> string option"
  GetProvider :: "string \<Rightarrow> string \<Rightarrow> error + Provider"
  FromEnv :: "error + Template list"
  yamlDecode :: "string \<Rightarrow> error + Plan"
  jsonUnmarshal :: "string \<Rightarrow> Context \<Rightarrow> error + Context"
  GetInstance :: "string \<Rightarrow> error + parameters"
  digestClient :: "string \<Rightarrow> string \<Rightarrow> error + HTTPClient"
  atlasNew :: "HTTPClient \<Rightarrow> string \<Rightarrow> AtlasClient option \<times> error option"
  quoted :: "string \<Rightarrow> string"

text \<open>
  The request context of \<open>BasicAuth\<close> mode. Modelled from the spec: \<open>atlasClientFromContext\<close>
  and \<open>groupIDFromContext\<close> are not among the sources; tenant and client come from the
  request's already-authenticated context. The record holds what the two functions return.
\<close>

record reqctx =
  atlasClientFromContext :: "AtlasClient option \<times> error option"
  groupIDFromContext :: "string \<times> error option"

section \<open>The catalog builder (services.go)\<close>

definition providerNames :: "string list" where
  "providerNames = [''AWS'', ''GCP'', ''AZURE'', ''TENANT'']"

definition dquote :: string where
  "dquote = [CHR 0x22]"

text \<open>services.go, lines 28-49.\<close>

definition sharedService :: Service where
  "sharedService =
     \<lparr>svc_ID = ''aosb-cluster-service-tenant'',
      svc_Name = ''mongodb-atlas-tenant'',
      svc_Description = ''Atlas cluster hosted on '' @ dquote @ ''TENANT'' @ dquote,
      svc_Bindable = True,
      svc_InstancesRetrievable = False,
      svc_BindingsRetrievable = False,
      svc_PlanUpdatable = True,
      svc_Plans =
        [\<lparr>sp_ID = ''aosb-cluster-plan-tenant-m2'', sp_Name = ''M2'',
          sp_Description = ''Instance size '' @ dquote @ ''M2'' @ dquote,
          sp_Free = None, sp_Metadata = None\<rparr>,
         \<lparr>sp_ID = ''aosb-cluster-plan-tenant-m5'', sp_Name = ''M5'',
          sp_Description = ''Instance size '' @ dquote @ ''M5'' @ dquote,
          sp_Free = None, sp_Metadata = None\<rparr>]\<rparr>"

text \<open>
  Modelled from the spec: \<open>newCatalog\<close> and \<open>catalog.applyWhitelist\<close> are in a file of the
  repository that is not among the sources. A new catalog is empty; the whitelist keeps only
  the plans whose name appears in the whitelisted set.
\<close>

definition newCatalog :: catalog where
  "newCatalog = \<lparr>cat_services = [], cat_providers = Map.empty, cat_plans = Map.empty\<rparr>"

definition applyWhitelist :: "ServicePlan list \<Rightarrow> string list \<Rightarrow> ServicePlan list" where
  "applyWhitelist ps whitelistedPlans = filter (\<lambda>p. sp_Name p \<in> set whitelistedPlans) ps"

text \<open>services.go, lines 144-162: one plan per instance size, no tenant qualifier.\<close>

definition buildPlansForProviderStatic :: "env \<Rightarrow> Provider \<Rightarrow> ServicePlan list" where
  "buildPlansForProviderStatic e provider =
     map (\<lambda>(k, instanceSize).
            \<lparr>sp_ID = planIDForInstanceSize (prov_Name provider) instanceSize '''',
             sp_Name = is_Name instanceSize,
             sp_Description = ''Instance size '' @ quoted e (is_Name instanceSize),
             sp_Free = None,
             sp_Metadata = Some [(''instanceSize'', MInstanceSize instanceSize)]\<rparr>)
         (prov_InstanceSizes provider)"

text \<open>
  services.go, lines 168-194: one plan per instance size and tenant. \<open>b.credentials.Projects\<close>
  is read inside the outer loop, so a \<open>nil\<close> credentials pointer panics as soon as there is an
  instance size. \<open>Projects\<close> is a Go map; the association list fixes one iteration order,
  used for every instance size.
\<close>

definition autoPlan :: "env \<Rightarrow> Provider \<Rightarrow> InstanceSize \<Rightarrow> string \<times> APIKey \<Rightarrow> ServicePlan" where
  "autoPlan e provider instanceSize entry =
     (case entry of (groupID, key) \<Rightarrow>
        let ident = (if Desc key \<noteq> '''' then normalizeID (Desc key) else groupID)
        in \<lparr>sp_ID = planIDForInstanceSize (prov_Name provider) instanceSize groupID,
            sp_Name = is_Name instanceSize @ ''-'' @ ident,
            sp_Description = ''Instance size '' @ quoted e (is_Name instanceSize),
            sp_Free = None,
            sp_Metadata = Some [(''groupID'', MString groupID),
                                (''instanceSize'', MInstanceSize instanceSize)]\<rparr>)"

definition buildPlansForProviderAuto :: "env \<Rightarrow> Broker \<Rightarrow> Provider \<Rightarrow> ServicePlan list result" where
  "buildPlansForProviderAuto e b provider =
     (if prov_InstanceSizes provider = [] then Returns []
      else case credentials b of
             None \<Rightarrow> Panics nilDereference
           | Some creds \<Rightarrow>
               Returns (concat (map (\<lambda>(k, instanceSize).
                                       map (autoPlan e provider instanceSize) (Projects creds))
                                    (prov_InstanceSizes provider))))"

text \<open>
  services.go, lines 209-255: the loop over the templates, with the plans and the log as
  accumulators. Each \<open>continue\<close> is a recursive call that leaves the plans as they are.
\<close>

definition invalidPlan :: "Plan \<Rightarrow> bool" where
  "invalidPlan p =
     (case dp_Cluster p of
        None \<Rightarrow> True
      | Some c \<Rightarrow>
          (case cl_ProviderSettings c of
             None \<Rightarrow> True
           | Some ps \<Rightarrow> InstanceSizeName ps = ''''))"

definition declaredProviderName :: "Plan \<Rightarrow> string" where
  "declaredProviderName p =
     (case dp_Cluster p of
        None \<Rightarrow> ''''
      | Some c \<Rightarrow> (case cl_ProviderSettings c of None \<Rightarrow> '''' | Some ps \<Rightarrow> ProviderName ps))"

definition declaredInstanceSizeName :: "Plan \<Rightarrow> string" where
  "declaredInstanceSizeName p =
     (case dp_Cluster p of
        None \<Rightarrow> ''''
      | Some c \<Rightarrow> (case cl_ProviderSettings c of None \<Rightarrow> '''' | Some ps \<Rightarrow> InstanceSizeName ps))"

definition dynamicPlan :: "Provider \<Rightarrow> Template \<Rightarrow> Plan \<Rightarrow> ServicePlan" where
  "dynamicPlan provider t p =
     \<lparr>sp_ID = planIDForDynamicPlan (prov_Name provider) (dp_Name p),
      sp_Name = dp_Name p,
      sp_Description = dp_Description p,
      sp_Free = dp_Free p,
      sp_Metadata = Some
        [(''template'', MTemplate t),
         (''instanceSize'',
            MInstanceSize (case map_of (prov_InstanceSizes provider) (declaredInstanceSizeName p) of
                             None \<Rightarrow> \<lparr>is_Name = ''''\<rparr>
                           | Some sz \<Rightarrow> sz))]\<rparr>"

fun dynamicLoop ::
  "env \<Rightarrow> Provider \<Rightarrow> Context \<Rightarrow> Template list \<Rightarrow> ServicePlan list \<Rightarrow> log_entry list
     \<Rightarrow> ServicePlan list \<times> log_entry list" where
  "dynamicLoop e provider ctx [] acc lg = (acc, lg)"
| "dynamicLoop e provider ctx (t # ts) acc lg =
     (case tpl_Execute t ctx of
        Inl err \<Rightarrow>
          dynamicLoop e provider ctx ts acc (lg @ [LogError ''cannot execute template'' (tpl_Name t)])
      | Inr raw \<Rightarrow>
          (let lg1 = lg @ [LogInfo (''Parsed plan: %s'' @ raw)] in
           case yamlDecode e raw of
             Inl err \<Rightarrow>
               dynamicLoop e provider ctx ts acc
                 (lg1 @ [LogError ''cannot decode yaml template'' (tpl_Name t)])
           | Inr p \<Rightarrow>
               if invalidPlan p
               then dynamicLoop e provider ctx ts acc
                      (lg1 @ [LogError ''invalid yaml template'' (tpl_Name t)])
               else if declaredProviderName p \<noteq> '''' \<and> declaredProviderName p \<noteq> prov_Name provider
               then dynamicLoop e provider ctx ts acc lg1
               else dynamicLoop e provider ctx ts (acc @ [dynamicPlan provider t p]) lg1))"

text \<open>services.go, lines 204-207: the context of a run over one provider.\<close>

definition providerCtx :: "Broker \<Rightarrow> Provider \<Rightarrow> Context" where
  "providerCtx b provider =
     (let ctx = DefaultCtx (credentials b)
      in ctx\<lparr>ctx_Cluster := (ctx_Cluster ctx)
               \<lparr>cl_ProviderSettings :=
                  Some \<lparr>ProviderName = prov_Name provider, InstanceSizeName = ''''\<rparr>\<rparr>\<rparr>)"

text \<open>services.go, lines 196-258.\<close>

definition buildPlansForProviderDynamic ::
  "env \<Rightarrow> Broker \<Rightarrow> Provider \<Rightarrow> ServicePlan list result \<times> Broker" where
  "buildPlansForProviderDynamic e b provider =
     (case FromEnv e of
        Inl err \<Rightarrow>
          (Exits ''could not read dynamic plans from environment'',
           b\<lparr>logger := logger b @ [LogFatal ''could not read dynamic plans from environment'']\<rparr>)
      | Inr templates \<Rightarrow>
          (case dynamicLoop e provider (providerCtx b provider) templates [] (logger b) of
             (ps, lg) \<Rightarrow> (Returns ps, b\<lparr>logger := lg\<rparr>)))"

text \<open>services.go, lines 129-142.\<close>

definition buildPlansForProvider ::
  "env \<Rightarrow> Broker \<Rightarrow> Provider \<Rightarrow> ServicePlan list result \<times> Broker" where
  "buildPlansForProvider e b provider =
     (case mode b of
        BasicAuth \<Rightarrow> (Returns (buildPlansForProviderStatic e provider), b)
      | MultiGroup \<Rightarrow> (Panics ''not implemented'', b)
      | MultiGroupAutoPlans \<Rightarrow> (buildPlansForProviderAuto e b provider, b)
      | DynamicPlans \<Rightarrow> buildPlansForProviderDynamic e b provider
      | OtherMode n \<Rightarrow> (Panics ''unknown broker mode'', b))"

text \<open>services.go, lines 107-125.\<close>

definition buildService :: "env \<Rightarrow> Broker \<Rightarrow> Provider \<Rightarrow> Service result \<times> Broker" where
  "buildService e b provider =
     (let catalogName = ''mongodb-atlas-'' @ ToLower (prov_Name provider) in
      case buildPlansForProvider e b provider of
        (Returns ps, b1) \<Rightarrow>
          (Returns
             \<lparr>svc_ID = serviceIDForProvider (prov_Name provider),
              svc_Name = catalogName,
              svc_Description = ''Atlas cluster hosted on '' @ dquote @ prov_Name provider @ dquote,
              svc_Bindable = True,
              svc_InstancesRetrievable = False,
              svc_BindingsRetrievable = False,
              svc_PlanUpdatable = True,
              svc_Plans = ps\<rparr>, b1)
      | (Panics m, b1) \<Rightarrow> (Panics m, b1)
      | (Exits m, b1) \<Rightarrow> (Exits m, b1))"

text \<open>
  services.go, lines 76-91: the service of one provider. The shared provider takes the
  hardcoded service; any other provider is fetched from the backend (the request is recorded
  in \<open>fetched\<close>), its service is built and the provider is stored under the service's ID.
\<close>

definition serviceForProvider ::
  "env \<Rightarrow> string \<Rightarrow> Broker \<Rightarrow> (error + Service) result \<times> Broker" where
  "serviceForProvider e providerName b =
     (if providerName = ''TENANT'' then (Returns (Inr sharedService), b)
      else case rootURL e (baseURL b) of
             None \<Rightarrow> (Panics nilDereference, b)
           | Some u \<Rightarrow>
               (let b0 = b\<lparr>fetched := fetched b @ [providerName]\<rparr> in
                case GetProvider e u providerName of
                  Inl err \<Rightarrow> (Returns (Inl err), b0)
                | Inr provider \<Rightarrow>
                    (case buildService e b0 provider of
                       (Returns svc, b1) \<Rightarrow>
                         (case catalog b1 of
                            None \<Rightarrow> (Panics nilDereference, b1)
                          | Some c \<Rightarrow>
                              (Returns (Inr svc),
                               b1\<lparr>catalog := Some (c\<lparr>cat_providers :=
                                                        (cat_providers c)(svc_ID svc \<mapsto> provider)\<rparr>)\<rparr>))
                     | (Panics m, b1) \<Rightarrow> (Panics m, b1)
                     | (Exits m, b1) \<Rightarrow> (Exits m, b1))))"

text \<open>services.go, lines 93-101: whitelist the plans, index them, append the service.\<close>

definition publishService :: "string list \<Rightarrow> Service \<Rightarrow> Broker \<Rightarrow> unit result \<times> Broker" where
  "publishService whitelistedPlans svc b =
     (case catalog b of
        None \<Rightarrow> (Panics nilDereference, b)
      | Some c \<Rightarrow>
          (let svc1 = (if whitelist b \<noteq> None
                       then svc\<lparr>svc_Plans := applyWhitelist (svc_Plans svc) whitelistedPlans\<rparr>
                       else svc);
               c1 = c\<lparr>cat_plans := foldl (\<lambda>m p. m(sp_ID p \<mapsto> p)) (cat_plans c) (svc_Plans svc1)\<rparr>;
               c2 = c1\<lparr>cat_services := cat_services c1 @ [svc1]\<rparr>
           in (Returns (), b\<lparr>catalog := Some c2\<rparr>)))"

text \<open>
  services.go, lines 70-104: the loop over the provider names. The result is the error that
  \<open>buildCatalog\<close> returns (\<open>None\<close> for \<open>nil\<close>).
\<close>

fun buildCatalogLoop :: "env \<Rightarrow> string list \<Rightarrow> Broker \<Rightarrow> error option result \<times> Broker" where
  "buildCatalogLoop e [] b = (Returns None, b)"
| "buildCatalogLoop e (providerName # rest) b =
     (let entry = (case whitelist b of None \<Rightarrow> None | Some wl \<Rightarrow> wl providerName);
          whitelistedPlans = (case entry of None \<Rightarrow> [] | Some ps \<Rightarrow> ps);
          isWhitelisted = (entry \<noteq> None)
      in if whitelist b \<noteq> None \<and> \<not> isWhitelisted then buildCatalogLoop e rest b
         else case serviceForProvider e providerName b of
                (Returns (Inl err), b1) \<Rightarrow> (Returns (Some err), b1)
              | (Returns (Inr svc), b1) \<Rightarrow>
                  (case publishService whitelistedPlans svc b1 of
                     (Returns u, b2) \<Rightarrow> buildCatalogLoop e rest b2
                   | (Panics m, b2) \<Rightarrow> (Panics m, b2)
                   | (Exits m, b2) \<Rightarrow> (Exits m, b2))
              | (Panics m, b1) \<Rightarrow> (Panics m, b1)
              | (Exits m, b1) \<Rightarrow> (Exits m, b1))"

text \<open>services.go, lines 67-105.\<close>

definition buildCatalog :: "env \<Rightarrow> Broker \<Rightarrow> error option result \<times> Broker" where
  "buildCatalog e b = buildCatalogLoop e providerNames (b\<lparr>catalog := Some newCatalog\<rparr>)"

text \<open>services.go, lines 55-65.\<close>

definition Services :: "env \<Rightarrow> Broker \<Rightarrow> (error + Service list) result \<times> Broker" where
  "Services e b =
     (let b0 = b\<lparr>logger := logger b @ [LogInfo ''Retrieving service catalog'']\<rparr> in
      case catalog b0 of
        Some c \<Rightarrow> (Returns (Inr (cat_services c)), b0)
      | None \<Rightarrow>
          (case buildCatalog e b0 of
             (Returns (Some err), b1) \<Rightarrow> (Returns (Inl err), b1)
           | (Returns None, b1) \<Rightarrow>
               (case catalog b1 of
                  None \<Rightarrow> (Panics nilDereference, b1)
                | Some c \<Rightarrow> (Returns (Inr (cat_services c)), b1))
           | (Panics m, b1) \<Rightarrow> (Panics m, b1)
           | (Exits m, b1) \<Rightarrow> (Exits m, b1)))"

text \<open>
  broker.go, lines 39-54: the constructor builds the catalog at once and ends the process when
  that fails.
\<close>

definition New ::
  "env \<Rightarrow> log_entry list \<Rightarrow> Credentials option \<Rightarrow> string \<Rightarrow> (string \<rightharpoonup> string list) option \<Rightarrow> Mode
     \<Rightarrow> unit result \<times> Broker" where
  "New e lg creds url wl m =
     (let b = \<lparr>logger = lg, whitelist = wl, credentials = creds, baseURL = url, mode = m,
               catalog = None, fetched = []\<rparr> in
      case buildCatalog e b of
        (Returns (Some err), b1) \<Rightarrow>
          (Exits ''Cannot build service catalog'',
           b1\<lparr>logger := logger b1 @ [LogFatal ''Cannot build service catalog'']\<rparr>)
      | (Returns None, b1) \<Rightarrow> (Returns (), b1)
      | (Panics msg, b1) \<Rightarrow> (Panics msg, b1)
      | (Exits msg, b1) \<Rightarrow> (Exits msg, b1))"

section \<open>The tenant and credential resolver (broker.go)\<close>

text \<open>
  broker.go, lines 94-106. \<open>primitive.D.Map\<close> turns the ordered document into a map; of two
  elements with the same key the later one stays.
\<close>

definition getInstanceState :: "env \<Rightarrow> string \<Rightarrow> error + (string \<rightharpoonup> bson)" where
  "getInstanceState e instanceID =
     (case GetInstance e instanceID of
        Inl err \<Rightarrow> Inl err
      | Inr (PrimitiveD kvs) \<Rightarrow> Inr (map_of (rev kvs))
      | Inr OtherParameters \<Rightarrow> Inl WrongMetadataType)"

text \<open>broker.go, lines 108-129. The result is the pair the Go function returns.\<close>

definition getGroupIDByInstanceID :: "env \<Rightarrow> string \<Rightarrow> string \<times> error option" where
  "getGroupIDByInstanceID e instanceID =
     (case getInstanceState e instanceID of
        Inl err \<Rightarrow> if err = ErrNoDocuments then ('''', None) else ('''', Some err)
      | Inr s \<Rightarrow>
          (case s ''groupID'' of
             None \<Rightarrow> ('''', Some (GroupIDNotFound instanceID))
           | Some (BString gid) \<Rightarrow> (gid, None)
           | Some BOther \<Rightarrow> ('''', Some GroupIDWrongType)))"

text \<open>
  broker.go, lines 56-92. The plan is looked up in the catalog, its template is rendered
  against the default context overridden by the request parameters, and the text is decoded.
  A plan without metadata (the shared service's plans) makes \<open>sp.Metadata.AdditionalMetadata\<close>
  a \<open>nil\<close> dereference.
\<close>

definition parsePlan :: "env \<Rightarrow> Broker \<Rightarrow> string \<Rightarrow> string \<Rightarrow> (error + Plan) result \<times> Broker" where
  "parsePlan e b planID rawParams =
     (case catalog b of
        None \<Rightarrow> (Panics nilDereference, b)
      | Some c \<Rightarrow>
          (case cat_plans c planID of
             None \<Rightarrow> (Returns (Inl (PlanNotFound planID)), b)
           | Some sp \<Rightarrow>
               (case sp_Metadata sp of
                  None \<Rightarrow> (Panics nilDereference, b)
                | Some md \<Rightarrow>
                    (case map_of md ''template'' of
                       Some (MTemplate tpl) \<Rightarrow>
                         (let params = DefaultCtx (credentials b) in
                          case (if rawParams \<noteq> [] then jsonUnmarshal e rawParams params
                                else Inr params) of
                            Inl err \<Rightarrow> (Returns (Inl err), b)
                          | Inr params1 \<Rightarrow>
                              (case tpl_Execute tpl params1 of
                                 Inl err \<Rightarrow> (Returns (Inl err), b)
                               | Inr raw \<Rightarrow>
                                   (case credentials b of
                                      None \<Rightarrow> (Panics nilDereference, b)
                                    | Some creds \<Rightarrow>
                                        (let b1 = b\<lparr>logger := logger b @ [LogInfo ''Parsed plan'']\<rparr> in
                                         case yamlDecode e raw of
                                           Inl err \<Rightarrow> (Returns (Inl err), b1)
                                         | Inr dp \<Rightarrow> (Returns (Inr dp), b1)))))
                     | _ \<Rightarrow> (Returns (Inl NoValidTemplate), b)))))"

text \<open>
  Modelled from the spec: \<open>catalog.findGroupIDByPlanID\<close> is not among the sources. In the
  auto-expanded mode the tenant is recovered from the plan: a reverse lookup of the plan ID
  among the catalog's plans, whose metadata carries the tenant.
\<close>

definition findGroupIDByPlanID :: "catalog \<Rightarrow> string \<Rightarrow> string \<times> error option" where
  "findGroupIDByPlanID c planID =
     (case cat_plans c planID of
        None \<Rightarrow> ('''', Some (PlanNotFound planID))
      | Some sp \<Rightarrow>
          (case sp_Metadata sp of
             None \<Rightarrow> ('''', Some (GroupIDNotFound planID))
           | Some md \<Rightarrow>
               (case map_of md ''groupID'' of
                  Some (MString gid) \<Rightarrow> (gid, None)
                | _ \<Rightarrow> ('''', Some (GroupIDNotFound planID)))))"

text \<open>
  broker.go, lines 232-243: after the switch, the client of the resolved tenant. The result
  is the triple \<open>(client, gid, err)\<close> of the Go function.
\<close>

definition clientForGroup ::
  "env \<Rightarrow> Broker \<Rightarrow> string \<Rightarrow> (AtlasClient option \<times> string \<times> error option) result" where
  "clientForGroup e b gid =
     (case credentials b of
        None \<Rightarrow> Panics nilDereference
      | Some creds \<Rightarrow>
          (case map_of (Projects creds) gid of
             None \<Rightarrow> Returns (None, gid, Some (CredentialsNotFound gid))
           | Some c \<Rightarrow>
               (case digestClient e (PublicKey c) (PrivateKey c) of
                  Inl err \<Rightarrow> Returns (None, gid, Some err)
                | Inr hc \<Rightarrow>
                    (case atlasNew e hc (baseURL b) of
                       (cl, err) \<Rightarrow> Returns (cl, gid, err)))))"

text \<open>broker.go, lines 154-244.\<close>

definition getClient ::
  "env \<Rightarrow> Broker \<Rightarrow> reqctx \<Rightarrow> string \<Rightarrow> string \<Rightarrow> string
     \<Rightarrow> (AtlasClient option \<times> string \<times> error option) result \<times> Broker" where
  "getClient e b rc instanceID planID rawParams =
     (case mode b of
        BasicAuth \<Rightarrow>
          (case atlasClientFromContext rc of
             (cl, Some err) \<Rightarrow> (Returns (cl, '''', Some err), b)
           | (cl, None) \<Rightarrow>
               (case groupIDFromContext rc of (gid, err) \<Rightarrow> (Returns (cl, gid, err), b)))
      | MultiGroup \<Rightarrow>
          (case getGroupIDByInstanceID e instanceID of
             (gid, Some err) \<Rightarrow> (Returns (None, gid, Some err), b)
           | (gid, None) \<Rightarrow>
               if gid \<noteq> '''' then (clientForGroup e b gid, b)
               else
                 (let params = DefaultCtx (credentials b) in
                  case (if rawParams \<noteq> [] then jsonUnmarshal e rawParams params
                        else Inr params) of
                    Inl err \<Rightarrow> (Returns (None, gid, Some err), b)
                  | Inr params1 \<Rightarrow>
                      if proj_ID (ctx_Project params1) = ''''
                      then (Returns (None, gid, Some ProjectIDNotInParams), b)
                      else (clientForGroup e b (proj_ID (ctx_Project params1)), b)))
      | MultiGroupAutoPlans \<Rightarrow>
          (case catalog b of
             None \<Rightarrow> (Panics nilDereference, b)
           | Some c \<Rightarrow>
               (case findGroupIDByPlanID c planID of
                  (gid, Some err) \<Rightarrow> (Returns (None, gid, Some err), b)
                | (gid, None) \<Rightarrow> (clientForGroup e b gid, b)))
      | DynamicPlans \<Rightarrow>
          (case getGroupIDByInstanceID e instanceID of
             (gid, Some err) \<Rightarrow> (Returns (None, gid, Some err), b)
           | (gid, None) \<Rightarrow>
               if gid \<noteq> '''' then (clientForGroup e b gid, b)
               else
                 (case parsePlan e b planID rawParams of
                    (Returns (Inl err), b1) \<Rightarrow> (Returns (None, gid, Some err), b1)
                  | (Returns (Inr dp), b1) \<Rightarrow>
                      (case dp_Project dp of
                         None \<Rightarrow> (Returns (None, gid, Some MissingProject), b1)
                       | Some pr \<Rightarrow>
                           if proj_ID pr \<noteq> '''' then (clientForGroup e b1 (proj_ID pr), b1)
                           else (clientForGroup e b1 gid, b1))
                  | (Panics m, b1) \<Rightarrow> (Panics m, b1)
                  | (Exits m, b1) \<Rightarrow> (Exits m, b1)))
      | OtherMode n \<Rightarrow> (Panics ''invalid broker mode'', b))"

section \<open>Vocabulary of the claims\<close>

text \<open>
  What one iteration of the template loop (services.go, lines 209-255) adds: the plans it
  appends and the log entries it writes.
\<close>

definition templateStep ::
  "env \<Rightarrow> Provider \<Rightarrow> Context \<Rightarrow> Template \<Rightarrow> ServicePlan list \<times> log_entry list" where
  "templateStep e provider ctx t =
     (case tpl_Execute t ctx of
        Inl err \<Rightarrow> ([], [LogError ''cannot execute template'' (tpl_Name t)])
      | Inr raw \<Rightarrow>
          (case yamlDecode e raw of
             Inl err \<Rightarrow>
               ([], [LogInfo (''Parsed plan: %s'' @ raw),
                     LogError ''cannot decode yaml template'' (tpl_Name t)])
           | Inr p \<Rightarrow>
               if invalidPlan p
               then ([], [LogInfo (''Parsed plan: %s'' @ raw),
                          LogError ''invalid yaml template'' (tpl_Name t)])
               else if declaredProviderName p \<noteq> '''' \<and> declaredProviderName p \<noteq> prov_Name provider
               then ([], [LogInfo (''Parsed plan: %s'' @ raw)])
               else ([dynamicPlan provider t p], [LogInfo (''Parsed plan: %s'' @ raw)])))"

text \<open>
  A template is faulty in a context when rendering fails, when the rendered text does not
  decode, or when the decoded plan fails validation (cluster missing, provider settings
  missing, or instance-size name empty). The value is the message of the error entry.
\<close>

definition templateFault :: "env \<Rightarrow> Context \<Rightarrow> Template \<Rightarrow> string option" where
  "templateFault e ctx t =
     (case tpl_Execute t ctx of
        Inl err \<Rightarrow> Some ''cannot execute template''
      | Inr raw \<Rightarrow>
          (case yamlDecode e raw of
             Inl err \<Rightarrow> Some ''cannot decode yaml template''
           | Inr p \<Rightarrow> if invalidPlan p then Some ''invalid yaml template'' else None))"

text \<open>
  The service a provider name contributes before whitelisting (services.go, lines 76-91):
  the hardcoded one for the shared provider, otherwise the one built from the fetched
  provider; \<open>None\<close> when the fetch fails or the build does not return.
\<close>

definition builtService :: "env \<Rightarrow> Broker \<Rightarrow> string \<Rightarrow> Service option" where
  "builtService e b n =
     (if n = ''TENANT'' then Some sharedService
      else case rootURL e (baseURL b) of
             None \<Rightarrow> None
           | Some u \<Rightarrow>
               (case GetProvider e u n of
                  Inl err \<Rightarrow> None
                | Inr provider \<Rightarrow>
                    (case fst (buildService e b provider) of
                       Returns svc \<Rightarrow> Some svc
                     | Panics m \<Rightarrow> None
                     | Exits m \<Rightarrow> None)))"

text \<open>A service with only the plans whose name is in the given list.\<close>

definition keepPlans :: "string list \<Rightarrow> Service \<Rightarrow> Service" where
  "keepPlans names svc = svc\<lparr>svc_Plans := filter (\<lambda>p. sp_Name p \<in> set names) (svc_Plans svc)\<rparr>"

text \<open>All plan IDs of a catalog, service by service.\<close>

definition planIDs :: "catalog \<Rightarrow> string list" where
  "planIDs c = concat (map (\<lambda>svc. map sp_ID (svc_Plans svc)) (cat_services c))"

section \<open>A sample deployment\<close>

text \<open>
  Concrete collaborators on which the theorems are instantiated. The backend offers the sizes
  M10 and M20 for every provider; there are two tenants; the decoder knows three rendered
  texts, of which \<open>minimal\<close> is the plan of \<open>sample_minimal.yml.tpl\<close> (provider AWS, size M20,
  a project without an ID).
\<close>

definition sampleProvider :: "string \<Rightarrow> Provider" where
  "sampleProvider n =
     \<lparr>prov_Name = n,
      prov_InstanceSizes = [(''M10'', \<lparr>is_Name = ''M10''\<rparr>), (''M20'', \<lparr>is_Name = ''M20''\<rparr>)]\<rparr>"

definition sampleCredentials :: Credentials where
  "sampleCredentials =
     \<lparr>Projects = [(''p1'', \<lparr>PublicKey = ''pub1'', PrivateKey = ''priv1'', Desc = ''alpha''\<rparr>),
                  (''p2'', \<lparr>PublicKey = ''pub2'', PrivateKey = ''priv2'', Desc = ''''\<rparr>)]\<rparr>"

definition planMinimal :: Plan where
  "planMinimal =
     \<lparr>dp_Name = ''minimal-plan'',
      dp_Description = ''This is a minimal plan for a cluster'',
      dp_Free = Some True,
      dp_Project = Some \<lparr>proj_ID = ''''\<rparr>,
      dp_Cluster = Some \<lparr>cl_ProviderSettings =
                           Some \<lparr>ProviderName = ''AWS'', InstanceSizeName = ''M20''\<rparr>\<rparr>\<rparr>"

definition planNoSize :: Plan where
  "planNoSize = planMinimal\<lparr>dp_Name := ''no-size'',
     dp_Cluster := Some \<lparr>cl_ProviderSettings =
                          Some \<lparr>ProviderName = ''AWS'', InstanceSizeName = ''''\<rparr>\<rparr>\<rparr>"

definition planNoProject :: Plan where
  "planNoProject = planMinimal\<lparr>dp_Name := ''no-project'', dp_Project := None\<rparr>"

definition sampleDecode :: "string \<Rightarrow> error + Plan" where
  "sampleDecode raw =
     (if raw = ''minimal'' then Inr planMinimal
      else if raw = ''nosize'' then Inr planNoSize
      else if raw = ''noproject'' then Inr planNoProject
      else Inl (External ''yaml: cannot decode''))"

definition tplMinimal :: Template where
  "tplMinimal = \<lparr>tpl_Name = ''sample_minimal.yml.tpl'', tpl_Execute = (\<lambda>ctx. Inr ''minimal'')\<rparr>"

definition tplNoSize :: Template where
  "tplNoSize = \<lparr>tpl_Name = ''no_size.yml.tpl'', tpl_Execute = (\<lambda>ctx. Inr ''nosize'')\<rparr>"

definition tplNoProject :: Template where
  "tplNoProject = \<lparr>tpl_Name = ''no_project.yml.tpl'', tpl_Execute = (\<lambda>ctx. Inr ''noproject'')\<rparr>"

definition sampleInstance :: "string \<Rightarrow> error + parameters" where
  "sampleInstance instanceID =
     (if instanceID = ''existing'' then Inr (PrimitiveD [(''groupID'', BString ''p1'')])
      else Inl ErrNoDocuments)"

definition sampleEnv :: env where
  "sampleEnv =
     \<lparr>rootURL = (\<lambda>u. Some u),
      GetProvider = (\<lambda>root n. Inr (sampleProvider n)),
      FromEnv = Inr [tplNoSize, tplMinimal],
      yamlDecode = sampleDecode,
      jsonUnmarshal = (\<lambda>raw ctx. Inr ctx),
      GetInstance = sampleInstance,
      digestClient = (\<lambda>pub priv. Inr \<lparr>hc_PublicKey = pub, hc_PrivateKey = priv\<rparr>),
      atlasNew = (\<lambda>hc url. (Some \<lparr>ac_HTTP = hc, ac_BaseURL = url\<rparr>, None)),
      quoted = (\<lambda>s. dquote @ s @ dquote)\<rparr>"

definition sampleBroker :: "Mode \<Rightarrow> Broker" where
  "sampleBroker m =
     \<lparr>logger = [], whitelist = None, credentials = Some sampleCredentials,
      baseURL = ''https://cloud.mongodb.com'', mode = m, catalog = None, fetched = []\<rparr>"

text \<open>A backend that answers for AWS and fails for every other provider.\<close>

definition failingEnv :: env where
  "failingEnv = sampleEnv\<lparr>GetProvider :=
     (\<lambda>root n. if n = ''AWS'' then Inr (sampleProvider n) else Inl (External ''backend unavailable''))\<rparr>"


text \<open>
  Two brokers have the same configuration when they agree on the fields that a catalog build
  reads and never writes.
\<close>

definition sameConfig :: "Broker \<Rightarrow> Broker \<Rightarrow> bool" where
  "sameConfig b b' \<longleftrightarrow>
     whitelist b' = whitelist b \<and> credentials b' = credentials b \<and>
     baseURL b' = baseURL b \<and> mode b' = mode b"

text \<open>
  The whitelist of a broker, read as the loop of \<open>buildCatalog\<close> reads it (services.go, lines
  71-74 and 93-95): whether a provider passes, the plan names listed for it, and the entry the
  provider leaves in the catalog.
\<close>

definition whitelistedProvider :: "Broker \<Rightarrow> string \<Rightarrow> bool" where
  "whitelistedProvider b n = (case whitelist b of None \<Rightarrow> True | Some wl \<Rightarrow> wl n \<noteq> None)"

definition whitelistedPlansOf :: "Broker \<Rightarrow> string \<Rightarrow> string list" where
  "whitelistedPlansOf b n =
     (case whitelist b of
        None \<Rightarrow> []
      | Some wl \<Rightarrow> (case wl n of None \<Rightarrow> [] | Some ps \<Rightarrow> ps))"

definition catalogEntry :: "env \<Rightarrow> Broker \<Rightarrow> string \<Rightarrow> Service option" where
  "catalogEntry e b n =
     (case whitelist b of
        None \<Rightarrow> builtService e b n
      | Some wl \<Rightarrow> map_option (keepPlans (whitelistedPlansOf b n)) (builtService e b n))"


text \<open>Whitelists and expected catalog entries of the sample deployment.\<close>

definition tenantOnly :: "(string \<rightharpoonup> string list) option" where
  "tenantOnly = Some [''TENANT'' \<mapsto> [''M2'']]"

definition awsM10 :: "(string \<rightharpoonup> string list) option" where
  "awsM10 = Some [''AWS'' \<mapsto> [''M10'']]"

definition awsM10Plan :: ServicePlan where
  "awsM10Plan =
     \<lparr>sp_ID = ''aosb-cluster-plan-aws-m10'', sp_Name = ''M10'',
      sp_Description = ''Instance size '' @ dquote @ ''M10'' @ dquote,
      sp_Free = None,
      sp_Metadata = Some [(''instanceSize'', MInstanceSize \<lparr>is_Name = ''M10''\<rparr>)]\<rparr>"

definition awsM20Plan :: ServicePlan where
  "awsM20Plan =
     \<lparr>sp_ID = ''aosb-cluster-plan-aws-m20'', sp_Name = ''M20'',
      sp_Description = ''Instance size '' @ dquote @ ''M20'' @ dquote,
      sp_Free = None,
      sp_Metadata = Some [(''instanceSize'', MInstanceSize \<lparr>is_Name = ''M20''\<rparr>)]\<rparr>"

definition awsService :: "ServicePlan list \<Rightarrow> Service" where
  "awsService ps =
     \<lparr>svc_ID = ''aosb-cluster-service-aws'',
      svc_Name = ''mongodb-atlas-aws'',
      svc_Description = ''Atlas cluster hosted on '' @ dquote @ ''AWS'' @ dquote,
      svc_Bindable = True,
      svc_InstancesRetrievable = False,
      svc_BindingsRetrievable = False,
      svc_PlanUpdatable = True,
      svc_Plans = ps\<rparr>"


text \<open>
  A broker in DynamicPlans mode whose catalog indexes two template plans, and a request
  context that carries neither a client nor a tenant.
\<close>

definition dynCatalogBroker :: Broker where
  "dynCatalogBroker =
     (let pm = dynamicPlan (sampleProvider ''AWS'') tplMinimal planMinimal;
          pn = dynamicPlan (sampleProvider ''AWS'') tplNoProject planNoProject
      in (sampleBroker DynamicPlans)
           \<lparr>catalog := Some \<lparr>cat_services = [], cat_providers = Map.empty,
                             cat_plans = [''minimal'' \<mapsto> pm, ''no-project'' \<mapsto> pn]\<rparr>\<rparr>)"


definition noRequestContext :: reqctx where
  "noRequestContext =
     \<lparr>atlasClientFromContext = (None, Some (External ''no client in context'')),
      groupIDFromContext = ('''', Some (External ''no group ID in context''))\<rparr>"


text \<open>
  The provider the backend returns for a name, if any; the prefix that the plan IDs of a
  provider share; and the provider a plan ID belongs to, read off that prefix for the four
  supported providers.
\<close>

definition fetchedProvider :: "env \<Rightarrow> Broker \<Rightarrow> string \<Rightarrow> Provider option" where
  "fetchedProvider e b n =
     (case rootURL e (baseURL b) of
        None \<Rightarrow> None
      | Some u \<Rightarrow> (case GetProvider e u n of Inl err \<Rightarrow> None | Inr p \<Rightarrow> Some p))"

definition planPrefix :: "string \<Rightarrow> string" where
  "planPrefix n = idPrefix @ ''-plan-'' @ ToLower n @ ''-''"

definition planTag :: "string \<Rightarrow> string" where
  "planTag x =
     (if take 22 x = ''aosb-cluster-plan-aws-'' then ''AWS''
      else if take 22 x = ''aosb-cluster-plan-gcp-'' then ''GCP''
      else if take 24 x = ''aosb-cluster-plan-azure-'' then ''AZURE''
      else if take 25 x = ''aosb-cluster-plan-tenant-'' then ''TENANT''
      else '''')"


text \<open>
  broker.go, lines 40-47: the broker that \<open>New\<close> allocates, before it builds the catalog. \<open>New\<close>
  is the only constructor, so the brokers that serve requests are the ones \<open>New\<close> returns,
  after any number of calls; \<open>afterServices e k b\<close> is the broker after \<open>k\<close> catalog queries.
\<close>

definition newBroker ::
  "log_entry list \<Rightarrow> Credentials option \<Rightarrow> string \<Rightarrow> (string \<rightharpoonup> string list) option \<Rightarrow> Mode
     \<Rightarrow> Broker" where
  "newBroker lg creds url wl m =
     \<lparr>logger = lg, whitelist = wl, credentials = creds, baseURL = url, mode = m,
      catalog = None, fetched = []\<rparr>"

fun afterServices :: "env \<Rightarrow> nat \<Rightarrow> Broker \<Rightarrow> Broker" where
  "afterServices e 0 b = b"
| "afterServices e (Suc k) b = snd (Services e (afterServices e k b))"

text \<open>
  The conditions under which the identifiers of a catalog are unique, stated on what the build
  reads: the answers of the backend, the templates as they render and decode, and the
  credentials.
  \<^item> The backend returns each provider under the name it was asked for, up to letter case, and
    in ASCII.
  \<^item> Static strategy (BasicAuth): the instance-size names of one provider are ASCII and differ
    in more than letter case.
  \<^item> Auto-expanded strategy (MultiGroupAutoPlans): the same, the instance-size names contain no
    \<open>-\<close>, and the tenant IDs are pairwise different (they are the keys of a Go map).
  \<^item> Dynamic strategy (DynamicPlans): the names of the plans that the template loop accepts for
    one provider are ASCII and differ in more than letter case.
\<close>

definition backendKeepsNames :: "env \<Rightarrow> Broker \<Rightarrow> bool" where
  "backendKeepsNames e b \<longleftrightarrow>
     (\<forall>n\<in>set providerNames.
        case fetchedProvider e b n of
          None \<Rightarrow> True
        | Some p \<Rightarrow> isASCII (prov_Name p) \<and> ToLower (prov_Name p) = ToLower n)"

text \<open>The names of the instance sizes of a provider, in the order of the iteration.\<close>

definition sizeNames :: "Provider \<Rightarrow> string list" where
  "sizeNames p = map (\<lambda>(k, sz). is_Name sz) (prov_InstanceSizes p)"

definition staticInputsDistinct :: "env \<Rightarrow> Broker \<Rightarrow> bool" where
  "staticInputsDistinct e b \<longleftrightarrow>
     (\<forall>n\<in>set providerNames.
        case fetchedProvider e b n of
          None \<Rightarrow> True
        | Some p \<Rightarrow> (\<forall>s\<in>set (sizeNames p). isASCII s) \<and> distinct (map ToLower (sizeNames p)))"

definition autoInputsDistinct :: "env \<Rightarrow> Broker \<Rightarrow> bool" where
  "autoInputsDistinct e b \<longleftrightarrow>
     (\<forall>n\<in>set providerNames.
        case fetchedProvider e b n of
          None \<Rightarrow> True
        | Some p \<Rightarrow>
            (\<forall>s\<in>set (sizeNames p). isASCII s \<and> dashFree s) \<and>
            distinct (map ToLower (sizeNames p))) \<and>
     (case credentials b of
        None \<Rightarrow> True
      | Some creds \<Rightarrow> distinct (map fst (Projects creds)))"

text \<open>
  The name of the plan that one iteration of the template loop (services.go, lines 209-255)
  appends for a template: none when rendering or decoding fails, when the plan fails
  validation, or when it names another provider.
\<close>

definition acceptedPlanName :: "env \<Rightarrow> Provider \<Rightarrow> Context \<Rightarrow> Template \<Rightarrow> string option" where
  "acceptedPlanName e provider ctx t =
     (case tpl_Execute t ctx of
        Inl err \<Rightarrow> None
      | Inr raw \<Rightarrow>
          (case yamlDecode e raw of
             Inl err \<Rightarrow> None
           | Inr p \<Rightarrow>
               if invalidPlan p then None
               else if declaredProviderName p \<noteq> '''' \<and> declaredProviderName p \<noteq> prov_Name provider
               then None
               else Some (dp_Name p)))"

definition templatePlanNames :: "env \<Rightarrow> Broker \<Rightarrow> Provider \<Rightarrow> string list" where
  "templatePlanNames e b provider =
     (case FromEnv e of
        Inl err \<Rightarrow> []
      | Inr templates \<Rightarrow>
          List.map_filter (acceptedPlanName e provider (providerCtx b provider)) templates)"

definition dynamicInputsDistinct :: "env \<Rightarrow> Broker \<Rightarrow> bool" where
  "dynamicInputsDistinct e b \<longleftrightarrow>
     (\<forall>n\<in>set providerNames.
        case fetchedProvider e b n of
          None \<Rightarrow> True
        | Some p \<Rightarrow>
            (\<forall>s\<in>set (templatePlanNames e b p). isASCII s) \<and>
            distinct (map ToLower (templatePlanNames e b p)))"

text \<open>The condition of the strategy that the broker's mode selects (services.go, lines 129-142).\<close>

definition uniqueInputs :: "env \<Rightarrow> Broker \<Rightarrow> bool" where
  "uniqueInputs e b =
     (case mode b of
        BasicAuth \<Rightarrow> staticInputsDistinct e b
      | MultiGroup \<Rightarrow> True
      | MultiGroupAutoPlans \<Rightarrow> autoInputsDistinct e b
      | DynamicPlans \<Rightarrow> dynamicInputsDistinct e b
      | OtherMode k \<Rightarrow> True)"

text \<open>
  A second template file that renders to the plan of \<open>sample_minimal.yml.tpl\<close>, and the
  environment in which both are loaded; and an environment with two template files whose
  plans have different names.
\<close>

definition tplMinimalCopy :: Template where
  "tplMinimalCopy =
     \<lparr>tpl_Name = ''sample_minimal_copy.yml.tpl'', tpl_Execute = (\<lambda>ctx. Inr ''minimal'')\<rparr>"

definition copyEnv :: env where
  "copyEnv = sampleEnv\<lparr>FromEnv := Inr [tplMinimal, tplMinimalCopy]\<rparr>"

definition twoPlansEnv :: env where
  "twoPlansEnv = sampleEnv\<lparr>FromEnv := Inr [tplMinimal, tplNoProject]\<rparr>"


section \<open>Facts about the string functions\<close>

lemma char_eq_code: "(c = d) = ((of_char c :: nat) = of_char d)"
  by simp

lemma toLowerChar_code:
  "(of_char (toLowerChar c) :: nat) =
     (if 65 \<le> (of_char c :: nat) \<and> (of_char c :: nat) \<le> 90 then of_char c + 32 else of_char c)"
  by (simp add: toLowerChar_def Let_def)

lemma isForbidden_code:
  "isForbidden c = (let n = (of_char c :: nat) in
     \<not> (n = 45 \<or> (97 \<le> n \<and> n \<le> 122) \<or> (65 \<le> n \<and> n \<le> 90) \<or> (48 \<le> n \<and> n \<le> 57)))"
  unfolding isForbidden_def Let_def by (simp add: char_eq_code [of c])

lemma toLowerChar_dash: "toLowerChar c = CHR ''-'' \<longleftrightarrow> c = CHR ''-''"
  unfolding char_eq_code [of _ "CHR ''-''"] toLowerChar_code by (simp split: if_splits)

lemma toLowerChar_underscore: "toLowerChar c = CHR ''_'' \<longleftrightarrow> c = CHR ''_''"
  unfolding char_eq_code [of _ "CHR ''_''"] toLowerChar_code by (simp split: if_splits)

lemma isForbidden_toLowerChar: "isForbidden (toLowerChar c) = isForbidden c"
  unfolding isForbidden_code Let_def toLowerChar_code by auto

lemma toLowerChar_idem: "toLowerChar (toLowerChar c) = toLowerChar c"
  unfolding char_eq_code [of "toLowerChar (toLowerChar c)"] toLowerChar_code [of "toLowerChar c"]
  by (simp add: toLowerChar_code)

lemma ToLower_idem: "ToLower (ToLower s) = ToLower s"
  by (simp add: ToLower_def toLowerChar_idem)

lemma dropWhile_head_fails: "dropWhile P xs = y # ys \<Longrightarrow> \<not> P y"
  by (metis hd_dropWhile list.sel(1) list.distinct(1))

lemma settled_Replace: "settled (ReplaceAllString s ''_'')"
proof (induction s "''_''" rule: ReplaceAllString.induct)
  case 1
  show ?case by simp
next
  case (2 c cs)
  show ?case
  proof (cases "isForbidden c")
    case True
    note ih = 2(1) [OF True]
    have und: "isForbidden (CHR ''_'')" by (simp add: isForbidden_code)
    show ?thesis
    proof (cases "dropWhile isForbidden cs")
      case Nil
      have "ReplaceAllString (c # cs) ''_'' = ''_''"
        using True by (simp only: ReplaceAllString.simps if_True Nil append_Nil2)
      with und show ?thesis by simp
    next
      case (Cons d ds)
      then have nd: "\<not> isForbidden d" by (rule dropWhile_head_fails)
      have "ReplaceAllString (c # cs) ''_'' = CHR ''_'' # ReplaceAllString (d # ds) ''_''"
        using True by (simp only: ReplaceAllString.simps if_True Cons append_Cons append_Nil)
      moreover have "settled (ReplaceAllString (d # ds) ''_'')" using ih Cons by simp
      ultimately show ?thesis using und nd by simp
    qed
  next
    case False
    with 2(2) show ?thesis by simp
  qed
qed

lemma Replace_settled: "settled s \<Longrightarrow> ReplaceAllString s ''_'' = s"
proof (induction s)
  case Nil
  show ?case by simp
next
  case (Cons c cs)
  show ?case
  proof (cases "isForbidden c")
    case True
    with Cons.prems have c: "c = CHR ''_''" and st: "settled cs"
      and nx: "case cs of [] \<Rightarrow> True | d # _ \<Rightarrow> \<not> isForbidden d" by simp_all
    from nx have "dropWhile isForbidden cs = cs" by (cases cs) simp_all
    with True c st Cons.IH show ?thesis by simp
  next
    case False
    with Cons show ?thesis by simp
  qed
qed

lemma settled_ToLower: "settled s \<Longrightarrow> settled (ToLower s)"
proof (induction s)
  case Nil
  show ?case by (simp add: ToLower_def)
next
  case (Cons c cs)
  then show ?case
    by (cases cs) (auto simp: ToLower_def isForbidden_toLowerChar toLowerChar_underscore split: if_splits)
qed

lemma Replace_chars: "c \<in> set (ReplaceAllString s ''_'') \<Longrightarrow> \<not> isForbidden c \<or> c = CHR ''_''"
  by (induction s "''_''" arbitrary: c rule: ReplaceAllString.induct) (auto split: if_splits)

lemma lower_of_allowed:
  "\<not> isForbidden c \<or> c = CHR ''_'' \<Longrightarrow> isLowerDigitDashUnderscore (toLowerChar c)"
  unfolding isForbidden_code isLowerDigitDashUnderscore_def Let_def toLowerChar_dash
    toLowerChar_underscore toLowerChar_code char_eq_code [of c]
  by auto

lemma Replace_ascii: "isASCII (ReplaceAllString s ''_'')"
proof -
  have "(of_char c :: nat) < 128" if "c \<in> set (ReplaceAllString s ''_'')" for c
    using Replace_chars [OF that]
    unfolding isForbidden_code Let_def char_eq_code [of c "CHR ''_''"] by auto
  then show ?thesis by (simp add: isASCII_def)
qed

lemma dash_toLowerChar: "CHR ''-'' = toLowerChar c \<longleftrightarrow> c = CHR ''-''"
  using toLowerChar_dash [of c] by auto

lemma dashFree_ToLower: "dashFree (ToLower s) = dashFree s"
proof (induction s)
  case Nil
  show ?case by (simp add: ToLower_def)
next
  case (Cons c cs)
  then show ?case
    unfolding dashFree_def ToLower_def list.map list.set insert_iff dash_toLowerChar
    by (simp add: eq_commute [of "CHR ''-''" c])
qed

lemma split_at_first:
  "c \<notin> set a \<Longrightarrow> c \<notin> set b \<Longrightarrow> a @ c # x = b @ c # y \<Longrightarrow> a = b \<and> x = y"
proof (induction a arbitrary: b)
  case Nil
  then show ?case by (cases b) auto
next
  case (Cons h t)
  then show ?case by (cases b) auto
qed

lemma planID_parts:
  assumes eq: "a1 @ ''-'' @ s1 @ t1 = a2 @ ''-'' @ s2 @ t2"
    and a: "dashFree a1" "dashFree a2" and s: "dashFree s1" "dashFree s2"
    and t1: "t1 = [] \<or> (\<exists>g. t1 = ''-'' @ g)" and t2: "t2 = [] \<or> (\<exists>g. t2 = ''-'' @ g)"
  shows "a1 = a2 \<and> s1 = s2 \<and> t1 = t2"
proof -
  from eq a have 1: "a1 = a2" and 2: "s1 @ t1 = s2 @ t2"
    using split_at_first [of "CHR ''-''" a1 a2 "s1 @ t1" "s2 @ t2"] by (simp_all add: dashFree_def)
  from t1 t2 show ?thesis
  proof (elim disjE exE)
    assume "t1 = []" "t2 = []"
    with 1 2 show ?thesis by simp
  next
    fix g assume "t1 = []" "t2 = ''-'' @ g"
    with 2 have "CHR ''-'' \<in> set s1" by auto
    with s show ?thesis by (simp add: dashFree_def)
  next
    fix g assume "t1 = ''-'' @ g" "t2 = []"
    with 2 have "s2 = s1 @ ''-'' @ g" by simp
    then have "CHR ''-'' \<in> set s2" by simp
    with s show ?thesis by (simp add: dashFree_def)
  next
    fix g h assume g: "t1 = ''-'' @ g" and h: "t2 = ''-'' @ h"
    with 2 s have "s1 = s2 \<and> g = h"
      using split_at_first [of "CHR ''-''" s1 s2 g h] by (simp add: dashFree_def)
    with 1 g h show ?thesis by simp
  qed
qed

section \<open>Claims about the identifier functions\<close>

text \<open>
  C9. \<open>normalizeID\<close> is idempotent, and every byte of its output is a lowercase letter, a
  digit, \<open>-\<close> or \<open>_\<close>, whatever the input.
\<close>

theorem normalizeID_idempotent_charset:
  "normalizeID (normalizeID x) = normalizeID x \<and>
   (\<forall>c \<in> set (normalizeID x). isLowerDigitDashUnderscore c)"
proof
  have "settled (ToLower (ReplaceAllString x ''_''))"
    by (rule settled_ToLower [OF settled_Replace])
  then show "normalizeID (normalizeID x) = normalizeID x"
    by (simp add: normalizeID_def Replace_settled ToLower_idem)
  show "\<forall>c \<in> set (normalizeID x). isLowerDigitDashUnderscore c"
    by (auto simp: normalizeID_def ToLower_def dest!: Replace_chars intro: lower_of_allowed)
qed

theorem normalizeID_idempotent_charset_witness:
  "normalizeID ''Dev  Team__#1-East'' = ''dev_team_1-east'' \<and>
   normalizeID (normalizeID ''Dev  Team__#1-East'') = normalizeID ''Dev  Team__#1-East'' \<and>
   list_all isLowerDigitDashUnderscore (normalizeID ''Dev  Team__#1-East'')"
proof -
  have v: "normalizeID ''Dev  Team__#1-East'' = ''dev_team_1-east''" by code_simp
  from normalizeID_idempotent_charset [of "''Dev  Team__#1-East''"]
  have "normalizeID (normalizeID ''Dev  Team__#1-East'') = normalizeID ''Dev  Team__#1-East''"
    and "list_all isLowerDigitDashUnderscore (normalizeID ''Dev  Team__#1-East'')"
    by (simp_all add: list_all_iff)
  with v show ?thesis by blast
qed

lemma planID_injective:
  assumes "dashFree p1" "dashFree (is_Name s1)" "dashFree p2" "dashFree (is_Name s2)"
  shows "planIDForInstanceSize p1 s1 g1 = planIDForInstanceSize p2 s2 g2 \<longleftrightarrow>
           ToLower p1 = ToLower p2 \<and> ToLower (is_Name s1) = ToLower (is_Name s2) \<and> g1 = g2"
proof
  assume eq: "planIDForInstanceSize p1 s1 g1 = planIDForInstanceSize p2 s2 g2"
  define t1 where "t1 = (if g1 = '''' then '''' else ''-'' @ g1)"
  define t2 where "t2 = (if g2 = '''' then '''' else ''-'' @ g2)"
  have f1: "planIDForInstanceSize p1 s1 g1 =
      (idPrefix @ ''-plan-'') @ (ToLower p1 @ ''-'' @ ToLower (is_Name s1) @ t1)"
    by (simp add: planIDForInstanceSize_def t1_def Let_def)
  have f2: "planIDForInstanceSize p2 s2 g2 =
      (idPrefix @ ''-plan-'') @ (ToLower p2 @ ''-'' @ ToLower (is_Name s2) @ t2)"
    by (simp add: planIDForInstanceSize_def t2_def Let_def)
  from eq have "ToLower p1 @ ''-'' @ ToLower (is_Name s1) @ t1 =
      ToLower p2 @ ''-'' @ ToLower (is_Name s2) @ t2"
    unfolding f1 f2 by (simp only: same_append_eq)
  moreover have "t1 = [] \<or> (\<exists>g. t1 = ''-'' @ g)" "t2 = [] \<or> (\<exists>g. t2 = ''-'' @ g)"
    by (auto simp: t1_def t2_def)
  ultimately have "ToLower p1 = ToLower p2 \<and> ToLower (is_Name s1) = ToLower (is_Name s2) \<and> t1 = t2"
    using assms by (intro planID_parts) (simp_all add: dashFree_ToLower)
  moreover have "t1 = t2 \<Longrightarrow> g1 = g2"
    by (auto simp: t1_def t2_def split: if_splits)
  ultimately show "ToLower p1 = ToLower p2 \<and> ToLower (is_Name s1) = ToLower (is_Name s2) \<and> g1 = g2"
    by blast
next
  assume "ToLower p1 = ToLower p2 \<and> ToLower (is_Name s1) = ToLower (is_Name s2) \<and> g1 = g2"
  then show "planIDForInstanceSize p1 s1 g1 = planIDForInstanceSize p2 s2 g2"
    by (simp add: planIDForInstanceSize_def)
qed

text \<open>
  C1, as the code has it. Plan IDs lower-case the provider and instance-size names and join the
  parts with \<open>-\<close>, so \<open>planIDForInstanceSize\<close> is injective only up to the case of the two
  names, and only when neither name contains \<open>-\<close>: for triples whose provider and
  instance-size names are ASCII and contain no \<open>-\<close>, two plan IDs are equal exactly when the
  lower-cased provider names agree, the lower-cased instance-size names agree, and the tenant
  qualifiers are the same. In particular identical triples give identical IDs.
\<close>

theorem planIDForInstanceSize_injective_dashFree:
  assumes "isASCII p1" "isASCII (is_Name s1)" "isASCII p2" "isASCII (is_Name s2)"
    and "dashFree p1" "dashFree (is_Name s1)" "dashFree p2" "dashFree (is_Name s2)"
  shows "planIDForInstanceSize p1 s1 g1 = planIDForInstanceSize p2 s2 g2 \<longleftrightarrow>
           ToLower p1 = ToLower p2 \<and> ToLower (is_Name s1) = ToLower (is_Name s2) \<and> g1 = g2"
  using assms(5-8) by (rule planID_injective)

theorem planIDForInstanceSize_injective_dashFree_witness:
  "isASCII ''AWS'' \<and> isASCII ''M10'' \<and> isASCII ''M20'' \<and>
   dashFree ''AWS'' \<and> dashFree ''M10'' \<and> dashFree ''M20'' \<and>
   planIDForInstanceSize ''AWS'' \<lparr>is_Name = ''M10''\<rparr> ''5e9f'' \<noteq>
     planIDForInstanceSize ''AWS'' \<lparr>is_Name = ''M20''\<rparr> ''5e9f'' \<and>
   planIDForInstanceSize ''AWS'' \<lparr>is_Name = ''M10''\<rparr> ''5e9f'' \<noteq>
     planIDForInstanceSize ''AWS'' \<lparr>is_Name = ''M10''\<rparr> ''5ea0''"
proof -
  have n: "ToLower ''M10'' \<noteq> ToLower ''M20''" by code_simp
  have a: "isASCII ''AWS''" "isASCII (is_Name \<lparr>is_Name = ''M10''\<rparr>)"
    "isASCII (is_Name \<lparr>is_Name = ''M20''\<rparr>)" by (simp_all add: isASCII_def)
  have d: "dashFree ''AWS''" "dashFree (is_Name \<lparr>is_Name = ''M10''\<rparr>)"
    "dashFree (is_Name \<lparr>is_Name = ''M20''\<rparr>)" by (simp_all add: dashFree_def)
  show ?thesis
    using planIDForInstanceSize_injective_dashFree
        [OF a(1) a(2) a(1) a(3) d(1) d(2) d(1) d(3), of "''5e9f''" "''5e9f''"]
      planIDForInstanceSize_injective_dashFree
        [OF a(1) a(2) a(1) a(2) d(1) d(2) d(1) d(2), of "''5e9f''" "''5ea0''"]
      n a d
    by simp
qed

text \<open>
  C1 as stated fails: two instance-size names that differ in case only collide, and so do a
  name ending in \<open>-a\<close> with tenant \<open>b\<close> and the shorter name with tenant \<open>a-b\<close>.
\<close>

theorem planIDForInstanceSize_collisions:
  "(''AWS'', \<lparr>is_Name = ''M10''\<rparr>, '''' :: string) \<noteq> (''AWS'', \<lparr>is_Name = ''m10''\<rparr>, '''') \<and>
   planIDForInstanceSize ''AWS'' \<lparr>is_Name = ''M10''\<rparr> '''' =
     planIDForInstanceSize ''AWS'' \<lparr>is_Name = ''m10''\<rparr> '''' \<and>
   (''AWS'', \<lparr>is_Name = ''M10''\<rparr>, ''a-b'') \<noteq> (''AWS'', \<lparr>is_Name = ''M10-a''\<rparr>, ''b'') \<and>
   planIDForInstanceSize ''AWS'' \<lparr>is_Name = ''M10''\<rparr> ''a-b'' =
     planIDForInstanceSize ''AWS'' \<lparr>is_Name = ''M10-a''\<rparr> ''b''"
proof -
  have "planIDForInstanceSize ''AWS'' \<lparr>is_Name = ''M10''\<rparr> '''' = ''aosb-cluster-plan-aws-m10''"
    and "planIDForInstanceSize ''AWS'' \<lparr>is_Name = ''m10''\<rparr> '''' = ''aosb-cluster-plan-aws-m10''"
    and "planIDForInstanceSize ''AWS'' \<lparr>is_Name = ''M10''\<rparr> ''a-b'' = ''aosb-cluster-plan-aws-m10-a-b''"
    and "planIDForInstanceSize ''AWS'' \<lparr>is_Name = ''M10-a''\<rparr> ''b'' = ''aosb-cluster-plan-aws-m10-a-b''"
    by code_simp+
  then show ?thesis by simp
qed

section \<open>The template loop in closed form\<close>

lemma dynamicLoop_step:
  "dynamicLoop e provider ctx (t # ts) acc lg =
     dynamicLoop e provider ctx ts (acc @ fst (templateStep e provider ctx t))
       (lg @ snd (templateStep e provider ctx t))"
  by (simp add: templateStep_def Let_def split: sum.split)

lemma dynamicLoop_closed:
  "dynamicLoop e provider ctx ts acc lg =
     (acc @ concat (map (\<lambda>t. fst (templateStep e provider ctx t)) ts),
      lg @ concat (map (\<lambda>t. snd (templateStep e provider ctx t)) ts))"
proof (induction ts arbitrary: acc lg)
  case Nil
  show ?case by simp
next
  case (Cons t ts)
  show ?case by (simp only: dynamicLoop_step Cons.IH) simp
qed

lemma templateStep_fault:
  "templateFault e ctx t = Some msg \<Longrightarrow>
     fst (templateStep e provider ctx t) = [] \<and>
     LogError msg (tpl_Name t) \<in> set (snd (templateStep e provider ctx t))"
  by (auto simp: templateFault_def templateStep_def Let_def split: sum.splits if_splits)

lemma templateStep_mismatch:
  "tpl_Execute t ctx = Inr raw \<Longrightarrow> yamlDecode e raw = Inr p \<Longrightarrow> \<not> invalidPlan p \<Longrightarrow>
   declaredProviderName p \<noteq> '''' \<Longrightarrow> declaredProviderName p \<noteq> prov_Name provider \<Longrightarrow>
     templateStep e provider ctx t = ([], [LogInfo (''Parsed plan: %s'' @ raw)])"
  by (simp add: templateStep_def)

lemma templateStep_match:
  "tpl_Execute t ctx = Inr raw \<Longrightarrow> yamlDecode e raw = Inr p \<Longrightarrow> \<not> invalidPlan p \<Longrightarrow>
   declaredProviderName p = '''' \<or> declaredProviderName p = prov_Name provider \<Longrightarrow>
     templateStep e provider ctx t = ([dynamicPlan provider t p], [LogInfo (''Parsed plan: %s'' @ raw)])"
  by (auto simp add: templateStep_def)

lemma templateStep_FromEnv [simp]:
  "templateStep (e\<lparr>FromEnv := x\<rparr>) provider ctx t = templateStep e provider ctx t"
  by (simp add: templateStep_def cong: sum.case_cong)

lemma buildPlansForProviderDynamic_closed:
  "FromEnv e = Inr ts \<Longrightarrow>
     buildPlansForProviderDynamic e b provider =
       (Returns (concat (map (\<lambda>t. fst (templateStep e provider (providerCtx b provider) t)) ts)),
        b\<lparr>logger := logger b @
             concat (map (\<lambda>t. snd (templateStep e provider (providerCtx b provider) t)) ts)\<rparr>)"
  by (simp add: buildPlansForProviderDynamic_def dynamicLoop_closed)

lemma sample_fault:
  "templateFault sampleEnv (providerCtx (sampleBroker DynamicPlans) (sampleProvider ''AWS'')) tplNoSize
     = Some ''invalid yaml template''"
  by (simp add: templateFault_def sampleEnv_def tplNoSize_def sampleDecode_def invalidPlan_def
      planNoSize_def planMinimal_def)

section \<open>Claims about the template loop\<close>

text \<open>
  C6. In DynamicPlans mode a template whose rendering fails, whose rendered text does not
  decode, or whose decoded plan fails validation is logged and skipped: with the templates
  \<open>ts1 @ t # ts2\<close> loaded and \<open>t\<close> faulty, \<open>buildPlansForProviderDynamic\<close> returns, it returns
  exactly the plans it returns when only \<open>ts1 @ ts2\<close> are loaded, and among the entries it
  adds to the log is the error entry naming \<open>t\<close>.
\<close>

theorem faulty_template_skipped:
  assumes env: "FromEnv e = Inr (ts1 @ t # ts2)"
    and fault: "templateFault e (providerCtx b provider) t = Some msg"
  shows "\<exists>ps new b'.
           buildPlansForProviderDynamic e b provider = (Returns ps, b\<lparr>logger := logger b @ new\<rparr>) \<and>
           LogError msg (tpl_Name t) \<in> set new \<and>
           buildPlansForProviderDynamic (e\<lparr>FromEnv := Inr (ts1 @ ts2)\<rparr>) b provider = (Returns ps, b')"
proof -
  let ?ctx = "providerCtx b provider"
  let ?plans = "\<lambda>ts. concat (map (\<lambda>t. fst (templateStep e provider ?ctx t)) ts)"
  let ?logs = "\<lambda>ts. concat (map (\<lambda>t. snd (templateStep e provider ?ctx t)) ts)"
  from templateStep_fault [OF fault, of provider]
  have none: "fst (templateStep e provider ?ctx t) = []"
    and logged: "LogError msg (tpl_Name t) \<in> set (snd (templateStep e provider ?ctx t))" by simp_all
  have 1: "buildPlansForProviderDynamic e b provider =
      (Returns (?plans (ts1 @ ts2)), b\<lparr>logger := logger b @ ?logs (ts1 @ t # ts2)\<rparr>)"
    by (simp add: buildPlansForProviderDynamic_closed [OF env] none)
  have 2: "buildPlansForProviderDynamic (e\<lparr>FromEnv := Inr (ts1 @ ts2)\<rparr>) b provider =
      (Returns (?plans (ts1 @ ts2)), b\<lparr>logger := logger b @ ?logs (ts1 @ ts2)\<rparr>)"
    by (simp add: buildPlansForProviderDynamic_closed [of "e\<lparr>FromEnv := Inr (ts1 @ ts2)\<rparr>" "ts1 @ ts2"])
  have 3: "LogError msg (tpl_Name t) \<in> set (?logs (ts1 @ t # ts2))"
    using logged by simp
  from 1 2 3 show ?thesis by blast
qed

theorem faulty_template_skipped_witness:
  "\<exists>ps new b'.
     buildPlansForProviderDynamic sampleEnv (sampleBroker DynamicPlans) (sampleProvider ''AWS'') =
       (Returns ps, (sampleBroker DynamicPlans)\<lparr>logger := logger (sampleBroker DynamicPlans) @ new\<rparr>) \<and>
     LogError ''invalid yaml template'' ''no_size.yml.tpl'' \<in> set new \<and>
     buildPlansForProviderDynamic (sampleEnv\<lparr>FromEnv := Inr [tplMinimal]\<rparr>)
       (sampleBroker DynamicPlans) (sampleProvider ''AWS'') = (Returns ps, b')"
proof -
  have env: "FromEnv sampleEnv = Inr ([] @ tplNoSize # [tplMinimal])"
    by (simp add: sampleEnv_def)
  have n: "tpl_Name tplNoSize = ''no_size.yml.tpl''" by (simp add: tplNoSize_def)
  show ?thesis
    using faulty_template_skipped [OF env sample_fault] unfolding n by simp
qed

text \<open>
  C7. In DynamicPlans mode a template whose decoded provider name is not empty and differs
  from the provider being processed (\<open>A\<close>) contributes no plan to that provider and raises no
  error: the run returns the plans of the templates before it followed by the plans of the
  templates after it, and the only log entry the template adds is the information entry with
  the rendered text. The same template, evaluated for a provider whose name it declares
  (\<open>B\<close>), contributes its plan there, between the plans of its neighbours.
\<close>

theorem provider_mismatch_skipped:
  assumes env: "FromEnv e = Inr (ts1 @ t # ts2)"
    and rA: "tpl_Execute t (providerCtx b A) = Inr rawA" and dA: "yamlDecode e rawA = Inr pA"
    and vA: "\<not> invalidPlan pA"
    and nA: "declaredProviderName pA \<noteq> ''''" "declaredProviderName pA \<noteq> prov_Name A"
    and rB: "tpl_Execute t (providerCtx b B) = Inr rawB" and dB: "yamlDecode e rawB = Inr pB"
    and vB: "\<not> invalidPlan pB"
    and mB: "declaredProviderName pB = prov_Name B"
  shows "(\<exists>ps1 ps2 l1 l2.
            buildPlansForProviderDynamic (e\<lparr>FromEnv := Inr ts1\<rparr>) b A =
              (Returns ps1, b\<lparr>logger := logger b @ l1\<rparr>) \<and>
            buildPlansForProviderDynamic (e\<lparr>FromEnv := Inr ts2\<rparr>) b A =
              (Returns ps2, b\<lparr>logger := logger b @ l2\<rparr>) \<and>
            buildPlansForProviderDynamic e b A =
              (Returns (ps1 @ ps2),
               b\<lparr>logger := logger b @ l1 @ [LogInfo (''Parsed plan: %s'' @ rawA)] @ l2\<rparr>)) \<and>
         (\<exists>ps1 ps2 l1 l2.
            buildPlansForProviderDynamic (e\<lparr>FromEnv := Inr ts1\<rparr>) b B =
              (Returns ps1, b\<lparr>logger := logger b @ l1\<rparr>) \<and>
            buildPlansForProviderDynamic (e\<lparr>FromEnv := Inr ts2\<rparr>) b B =
              (Returns ps2, b\<lparr>logger := logger b @ l2\<rparr>) \<and>
            buildPlansForProviderDynamic e b B =
              (Returns (ps1 @ [dynamicPlan B t pB] @ ps2),
               b\<lparr>logger := logger b @ l1 @ [LogInfo (''Parsed plan: %s'' @ rawB)] @ l2\<rparr>))"
proof -
  let ?P = "\<lambda>X ts. concat (map (\<lambda>t. fst (templateStep e X (providerCtx b X) t)) ts)"
  let ?L = "\<lambda>X ts. concat (map (\<lambda>t. snd (templateStep e X (providerCtx b X) t)) ts)"
  have run: "buildPlansForProviderDynamic (e\<lparr>FromEnv := Inr ts\<rparr>) b X =
      (Returns (?P X ts), b\<lparr>logger := logger b @ ?L X ts\<rparr>)" for ts X
    by (simp add: buildPlansForProviderDynamic_closed [of "e\<lparr>FromEnv := Inr ts\<rparr>" ts])
  have all: "buildPlansForProviderDynamic e b X =
      (Returns (?P X ts1 @ fst (templateStep e X (providerCtx b X) t) @ ?P X ts2),
       b\<lparr>logger := logger b @ ?L X ts1 @ snd (templateStep e X (providerCtx b X) t) @ ?L X ts2\<rparr>)" for X
    by (simp add: buildPlansForProviderDynamic_closed [OF env])
  have a: "buildPlansForProviderDynamic e b A =
      (Returns (?P A ts1 @ ?P A ts2),
       b\<lparr>logger := logger b @ ?L A ts1 @ [LogInfo (''Parsed plan: %s'' @ rawA)] @ ?L A ts2\<rparr>)"
    using all [of A] templateStep_mismatch [OF rA dA vA nA] by simp
  have b: "buildPlansForProviderDynamic e b B =
      (Returns (?P B ts1 @ [dynamicPlan B t pB] @ ?P B ts2),
       b\<lparr>logger := logger b @ ?L B ts1 @ [LogInfo (''Parsed plan: %s'' @ rawB)] @ ?L B ts2\<rparr>)"
    using all [of B] templateStep_match [OF rB dB vB disjI2 [OF mB]] by simp
  from run [of ts1 A] run [of ts2 A] a run [of ts1 B] run [of ts2 B] b
  show ?thesis by blast
qed

theorem provider_mismatch_skipped_witness:
  "buildPlansForProviderDynamic sampleEnv (sampleBroker DynamicPlans) (sampleProvider ''GCP'') =
     (Returns [],
      (sampleBroker DynamicPlans)
        \<lparr>logger := [LogInfo ''Parsed plan: %snosize'',
                    LogError ''invalid yaml template'' ''no_size.yml.tpl'',
                    LogInfo ''Parsed plan: %sminimal'']\<rparr>) \<and>
   buildPlansForProviderDynamic sampleEnv (sampleBroker DynamicPlans) (sampleProvider ''AWS'') =
     (Returns [dynamicPlan (sampleProvider ''AWS'') tplMinimal planMinimal],
      (sampleBroker DynamicPlans)
        \<lparr>logger := [LogInfo ''Parsed plan: %snosize'',
                    LogError ''invalid yaml template'' ''no_size.yml.tpl'',
                    LogInfo ''Parsed plan: %sminimal'']\<rparr>)"
proof -
  let ?b = "sampleBroker DynamicPlans"
  have env: "FromEnv sampleEnv = Inr ([tplNoSize] @ tplMinimal # [])"
    by (simp add: sampleEnv_def)
  have r: "tpl_Execute tplMinimal (providerCtx ?b X) = Inr ''minimal''" for X
    by (simp add: tplMinimal_def)
  have d: "yamlDecode sampleEnv ''minimal'' = Inr planMinimal"
    by (simp add: sampleEnv_def sampleDecode_def)
  have v: "\<not> invalidPlan planMinimal" by (simp add: invalidPlan_def planMinimal_def)
  have pn: "declaredProviderName planMinimal = ''AWS''"
    by (simp add: declaredProviderName_def planMinimal_def)
  have n1: "declaredProviderName planMinimal \<noteq> ''''"
    and n2: "declaredProviderName planMinimal \<noteq> prov_Name (sampleProvider ''GCP'')"
    and m: "declaredProviderName planMinimal = prov_Name (sampleProvider ''AWS'')"
    by (simp_all add: pn sampleProvider_def)
  have one: "buildPlansForProviderDynamic (sampleEnv\<lparr>FromEnv := Inr [tplNoSize]\<rparr>) ?b (sampleProvider X) =
      (Returns [], ?b\<lparr>logger := [LogInfo ''Parsed plan: %snosize'',
                    LogError ''invalid yaml template'' ''no_size.yml.tpl'']\<rparr>)" for X
    by (simp add: buildPlansForProviderDynamic_def sampleEnv_def tplNoSize_def sampleDecode_def
        invalidPlan_def planNoSize_def planMinimal_def sampleBroker_def)
  have two: "buildPlansForProviderDynamic (sampleEnv\<lparr>FromEnv := Inr []\<rparr>) ?b (sampleProvider X) =
      (Returns [], ?b\<lparr>logger := []\<rparr>)" for X
    by (simp add: buildPlansForProviderDynamic_def sampleEnv_def sampleBroker_def)
  show ?thesis
    using provider_mismatch_skipped [OF env r d v n1 n2 r d v m]
    unfolding one two by (auto simp: sampleBroker_def)
qed

section \<open>The catalog loop in closed form\<close>

lemma sameConfig_refl [simp]: "sameConfig b b"
  by (simp add: sameConfig_def)

lemma sameConfig_trans: "sameConfig a b \<Longrightarrow> sameConfig b c \<Longrightarrow> sameConfig a c"
  by (simp add: sameConfig_def)

lemma buildPlansForProviderDynamic_state:
  "buildPlansForProviderDynamic e b p = (r, b') \<Longrightarrow> \<exists>lg. b' = b\<lparr>logger := lg\<rparr>"
  by (auto simp: buildPlansForProviderDynamic_def split: sum.splits prod.splits)

lemma buildPlansForProvider_state:
  "buildPlansForProvider e b p = (r, b') \<Longrightarrow> \<exists>lg. b' = b\<lparr>logger := lg\<rparr>"
proof (cases "mode b")
  case DynamicPlans
  assume "buildPlansForProvider e b p = (r, b')"
  with DynamicPlans show ?thesis
    by (simp add: buildPlansForProvider_def buildPlansForProviderDynamic_state)
next
  case BasicAuth
  assume "buildPlansForProvider e b p = (r, b')"
  with BasicAuth have "b' = b\<lparr>logger := logger b\<rparr>" by (auto simp: buildPlansForProvider_def)
  then show ?thesis ..
next
  case MultiGroup
  assume "buildPlansForProvider e b p = (r, b')"
  with MultiGroup have "b' = b\<lparr>logger := logger b\<rparr>" by (auto simp: buildPlansForProvider_def)
  then show ?thesis ..
next
  case MultiGroupAutoPlans
  assume "buildPlansForProvider e b p = (r, b')"
  with MultiGroupAutoPlans have "b' = b\<lparr>logger := logger b\<rparr>" by (auto simp: buildPlansForProvider_def)
  then show ?thesis ..
next
  case (OtherMode n)
  assume "buildPlansForProvider e b p = (r, b')"
  with OtherMode have "b' = b\<lparr>logger := logger b\<rparr>" by (auto simp: buildPlansForProvider_def)
  then show ?thesis ..
qed

lemma buildService_state:
  "buildService e b p = (r, b') \<Longrightarrow> \<exists>lg. b' = b\<lparr>logger := lg\<rparr>"
proof -
  assume a: "buildService e b p = (r, b')"
  obtain r0 b0 where pl: "buildPlansForProvider e b p = (r0, b0)" by (cases "buildPlansForProvider e b p")
  from a pl have "b' = b0" by (cases r0) (auto simp: buildService_def Let_def)
  with buildPlansForProvider_state [OF pl] show ?thesis by simp
qed

lemma providerCtx_cong:
  "credentials b = credentials b' \<Longrightarrow> providerCtx b p = providerCtx b' p"
  by (simp add: providerCtx_def)

lemma dynamicLoop_fst_log:
  "fst (dynamicLoop e p ctx ts acc lg) = fst (dynamicLoop e p ctx ts acc lg')"
  by (simp add: dynamicLoop_closed)

lemma buildPlansForProvider_indep:
  assumes "credentials b = credentials b'" "mode b = mode b'"
  shows "fst (buildPlansForProvider e b p) = fst (buildPlansForProvider e b' p)"
proof (cases "mode b")
  case DynamicPlans
  with assms show ?thesis
    by (auto simp: buildPlansForProvider_def buildPlansForProviderDynamic_def
        providerCtx_cong [OF assms(1)] dynamicLoop_closed split: sum.splits)
qed (use assms in \<open>auto simp: buildPlansForProvider_def buildPlansForProviderAuto_def\<close>)

lemma buildService_indep:
  assumes "credentials b = credentials b'" "mode b = mode b'"
  shows "fst (buildService e b p) = fst (buildService e b' p)"
proof -
  obtain r0 b0 where 1: "buildPlansForProvider e b p = (r0, b0)" by (cases "buildPlansForProvider e b p")
  obtain r1 b1 where 2: "buildPlansForProvider e b' p = (r1, b1)" by (cases "buildPlansForProvider e b' p")
  from buildPlansForProvider_indep [OF assms, of e p] 1 2 have "r0 = r1" by simp
  with 1 2 show ?thesis by (cases r1) (simp_all add: buildService_def Let_def)
qed

lemma builtService_cong:
  "sameConfig b b' \<Longrightarrow> builtService e b' n = builtService e b n"
  unfolding builtService_def sameConfig_def
  by (auto simp: buildService_indep [of b' b] split: option.splits sum.splits)

lemma serviceForProvider_facts:
  assumes run: "serviceForProvider e n b = (r, b')"
  shows "sameConfig b b'"
    and "\<exists>new. fetched b' = fetched b @ new \<and> ''TENANT'' \<notin> set new"
    and "catalog b = Some c \<Longrightarrow>
           \<exists>c'. catalog b' = Some c' \<and> cat_services c' = cat_services c \<and> cat_plans c' = cat_plans c"
    and "r = Returns (Inr svc) \<Longrightarrow> builtService e b n = Some svc"
    and "r = Returns (Inl err) \<Longrightarrow> catalog b' = catalog b"
proof -
  show "sameConfig b b'"
    using run unfolding serviceForProvider_def sameConfig_def Let_def
    by (auto split: if_splits option.splits sum.splits prod.splits result.splits
        dest!: buildService_state)
  show "\<exists>new. fetched b' = fetched b @ new \<and> ''TENANT'' \<notin> set new"
    using run unfolding serviceForProvider_def Let_def
    by (auto split: if_splits option.splits sum.splits prod.splits result.splits
        dest!: buildService_state)
  show "catalog b = Some c \<Longrightarrow>
           \<exists>c'. catalog b' = Some c' \<and> cat_services c' = cat_services c \<and> cat_plans c' = cat_plans c"
    using run unfolding serviceForProvider_def Let_def
    by (auto split: if_splits option.splits sum.splits prod.splits result.splits
        dest!: buildService_state)
  show "r = Returns (Inl err) \<Longrightarrow> catalog b' = catalog b"
    using run unfolding serviceForProvider_def Let_def
    by (auto split: if_splits option.splits sum.splits prod.splits result.splits
        dest!: buildService_state)
  show "r = Returns (Inr svc) \<Longrightarrow> builtService e b n = Some svc"
  proof -
    assume r: "r = Returns (Inr svc)"
    show ?thesis
    proof (cases "n = ''TENANT''")
      case True
      with run r show ?thesis by (simp add: serviceForProvider_def builtService_def)
    next
      case False
      from run r False obtain u provider b1 where
        u: "rootURL e (baseURL b) = Some u" and g: "GetProvider e u n = Inr provider"
        and bs: "buildService e (b\<lparr>fetched := fetched b @ [n]\<rparr>) provider = (Returns svc, b1)"
        unfolding serviceForProvider_def Let_def
        by (auto split: option.splits sum.splits prod.splits result.splits)
      have "fst (buildService e b provider) = fst (buildService e (b\<lparr>fetched := fetched b @ [n]\<rparr>) provider)"
        by (rule buildService_indep) simp_all
      with bs have "fst (buildService e b provider) = Returns svc" by simp
      with False u g show ?thesis by (simp add: builtService_def)
    qed
  qed
qed


lemma loop_skip:
  "\<not> whitelistedProvider b n \<Longrightarrow> buildCatalogLoop e (n # rest) b = buildCatalogLoop e rest b"
  by (auto simp: whitelistedProvider_def Let_def split: option.splits)

lemma loop_take:
  "whitelistedProvider b n \<Longrightarrow>
     buildCatalogLoop e (n # rest) b =
       (case serviceForProvider e n b of
          (Returns (Inl err), b1) \<Rightarrow> (Returns (Some err), b1)
        | (Returns (Inr svc), b1) \<Rightarrow>
            (case publishService (whitelistedPlansOf b n) svc b1 of
               (Returns u, b2) \<Rightarrow> buildCatalogLoop e rest b2
             | (Panics m, b2) \<Rightarrow> (Panics m, b2)
             | (Exits m, b2) \<Rightarrow> (Exits m, b2))
        | (Panics m, b1) \<Rightarrow> (Panics m, b1)
        | (Exits m, b1) \<Rightarrow> (Exits m, b1))"
proof (cases "whitelist b")
  case None
  then have w: "whitelistedPlansOf b n = []" by (simp add: whitelistedPlansOf_def)
  show ?thesis unfolding w buildCatalogLoop.simps Let_def None option.case by simp
next
  case (Some wl)
  assume "whitelistedProvider b n"
  with Some obtain ps where ps: "wl n = Some ps" by (auto simp: whitelistedProvider_def)
  with Some have w: "whitelistedPlansOf b n = ps" by (simp add: whitelistedPlansOf_def)
  show ?thesis unfolding w buildCatalogLoop.simps Let_def Some ps option.case by simp
qed

lemma publishService_facts:
  assumes run: "publishService wl svc b = (r, b')"
  shows "sameConfig b b'" and "fetched b' = fetched b"
    and "catalog b = Some c \<Longrightarrow>
           r = Returns () \<and>
           (\<exists>c'. catalog b' = Some c' \<and>
                 cat_services c' = cat_services c @
                   [if whitelist b \<noteq> None then keepPlans wl svc else svc])"
  using run
  by (auto simp: publishService_def sameConfig_def Let_def keepPlans_def applyWhitelist_def
      split: option.splits)

lemma catalogEntry_cong:
  "sameConfig b b' \<Longrightarrow> catalogEntry e b' n = catalogEntry e b n"
proof -
  assume sc: "sameConfig b b'"
  then have w: "whitelist b' = whitelist b" by (simp add: sameConfig_def)
  then have p: "whitelistedPlansOf b' n = whitelistedPlansOf b n" by (simp add: whitelistedPlansOf_def)
  show ?thesis unfolding catalogEntry_def builtService_cong [OF sc] w p ..
qed

lemma whitelistedProvider_cong:
  "sameConfig b b' \<Longrightarrow> whitelistedProvider b' = whitelistedProvider b"
  by (simp add: whitelistedProvider_def sameConfig_def fun_eq_iff)

lemma loop_closed:
  "buildCatalogLoop e names b = (Returns None, b') \<Longrightarrow> catalog b = Some c \<Longrightarrow>
     sameConfig b b' \<and>
     (\<exists>c'. catalog b' = Some c' \<and>
        map Some (cat_services c') =
          map Some (cat_services c) @ map (catalogEntry e b) (filter (whitelistedProvider b) names))"
proof (induction names arbitrary: b c)
  case Nil
  then show ?case by auto
next
  case (Cons n rest)
  show ?case
  proof (cases "whitelistedProvider b n")
    case False
    with Cons.prems(1) have "buildCatalogLoop e rest b = (Returns None, b')"
      by (simp add: loop_skip del: buildCatalogLoop.simps)
    from Cons.IH [OF this Cons.prems(2)] False show ?thesis by simp
  next
    case True
    obtain r1 b1 where s: "serviceForProvider e n b = (r1, b1)"
      by (cases "serviceForProvider e n b")
    note f1 = serviceForProvider_facts [OF s]
    from Cons.prems(1) True s obtain svc where r1: "r1 = Returns (Inr svc)"
      by (auto simp add: loop_take simp del: buildCatalogLoop.simps split: prod.splits result.splits sum.splits)
    obtain r2 b2 where p: "publishService (whitelistedPlansOf b n) svc b1 = (r2, b2)"
      by (cases "publishService (whitelistedPlansOf b n) svc b1")
    note f2 = publishService_facts [OF p]
    from f1(3) [OF Cons.prems(2)] obtain c1 where c1: "catalog b1 = Some c1"
      and c1s: "cat_services c1 = cat_services c" by blast
    from f2(3) [OF c1] obtain c2 where r2: "r2 = Returns ()" and c2: "catalog b2 = Some c2"
      and c2s: "cat_services c2 = cat_services c1 @
          [if whitelist b1 \<noteq> None then keepPlans (whitelistedPlansOf b n) svc else svc]" by blast
    from Cons.prems(1) True s r1 p r2 have rest: "buildCatalogLoop e rest b2 = (Returns None, b')"
      by (simp add: loop_take del: buildCatalogLoop.simps)
    have cfg: "sameConfig b b2" by (rule sameConfig_trans [OF f1(1) f2(1)])
    from Cons.IH [OF rest c2] obtain c' where cfg2: "sameConfig b2 b'" and c': "catalog b' = Some c'"
      and srv: "map Some (cat_services c') =
          map Some (cat_services c2) @ map (catalogEntry e b2) (filter (whitelistedProvider b2) rest)"
      by blast
    have wl1: "whitelist b1 = whitelist b" using f1(1) by (simp add: sameConfig_def)
    have entry: "catalogEntry e b n =
        Some (if whitelist b1 \<noteq> None then keepPlans (whitelistedPlansOf b n) svc else svc)"
      using f1(4) [OF r1] by (auto simp: catalogEntry_def wl1)
    have "map Some (cat_services c') =
        map Some (cat_services c) @ map (catalogEntry e b) (filter (whitelistedProvider b) (n # rest))"
      using srv True by (simp add: c2s c1s entry catalogEntry_cong [OF cfg] whitelistedProvider_cong [OF cfg])
    with c' sameConfig_trans [OF cfg cfg2] show ?thesis by blast
  qed
qed

lemma loop_fetched:
  "buildCatalogLoop e names b = (r, b') \<Longrightarrow>
     \<exists>new. fetched b' = fetched b @ new \<and> ''TENANT'' \<notin> set new"
proof (induction names arbitrary: b)
  case Nil
  then show ?case by simp
next
  case (Cons n rest)
  show ?case
  proof (cases "whitelistedProvider b n")
    case False
    with Cons.prems have "buildCatalogLoop e rest b = (r, b')" by (simp add: loop_skip del: buildCatalogLoop.simps)
    from Cons.IH [OF this] show ?thesis .
  next
    case True
    obtain r1 b1 where s: "serviceForProvider e n b = (r1, b1)"
      by (cases "serviceForProvider e n b")
    from serviceForProvider_facts(2) [OF s] obtain new1 where
      n1: "fetched b1 = fetched b @ new1" "''TENANT'' \<notin> set new1" by blast
    show ?thesis
    proof (cases "\<exists>svc. r1 = Returns (Inr svc)")
      case False
      with Cons.prems True s have "b' = b1"
        by (auto simp: loop_take simp del: buildCatalogLoop.simps split: result.splits sum.splits)
      with n1 show ?thesis by blast
    next
      case True
      then obtain svc where r1: "r1 = Returns (Inr svc)" ..
      obtain r2 b2 where p: "publishService (whitelistedPlansOf b n) svc b1 = (r2, b2)"
        by (cases "publishService (whitelistedPlansOf b n) svc b1")
      note f2 = publishService_facts(2) [OF p]
      show ?thesis
      proof (cases "r2 = Returns ()")
        case True
        with Cons.prems \<open>whitelistedProvider b n\<close> s r1 p
        have "buildCatalogLoop e rest b2 = (r, b')" by (simp add: loop_take del: buildCatalogLoop.simps)
        from Cons.IH [OF this] obtain new2 where
          "fetched b' = fetched b2 @ new2" "''TENANT'' \<notin> set new2" by blast
        with n1 f2 have "fetched b' = fetched b @ (new1 @ new2) \<and> ''TENANT'' \<notin> set (new1 @ new2)"
          by simp
        then show ?thesis ..
      next
        case False
        with Cons.prems \<open>whitelistedProvider b n\<close> s r1 p have "b' = b2"
          by (cases r2) (auto simp: loop_take simp del: buildCatalogLoop.simps)
        with n1 f2 show ?thesis by auto
      qed
    qed
  qed
qed


lemma map_Some_snoc: "map Some ys = xs @ [Some x] \<Longrightarrow> ys \<noteq> [] \<and> last ys = x"
  by (cases ys rule: rev_cases) auto

lemma buildCatalog_closed:
  assumes "buildCatalog e b = (Returns None, b')"
  shows "\<exists>c. catalog b' = Some c \<and>
           map Some (cat_services c) = map (catalogEntry e b) (filter (whitelistedProvider b) providerNames)"
proof -
  let ?b0 = "b\<lparr>catalog := Some newCatalog\<rparr>"
  have sc: "sameConfig b ?b0" by (simp add: sameConfig_def)
  from assms have "buildCatalogLoop e providerNames ?b0 = (Returns None, b')"
    by (simp add: buildCatalog_def)
  from loop_closed [OF this, of newCatalog] obtain c where
    "catalog b' = Some c"
    "map Some (cat_services c) = map (catalogEntry e ?b0) (filter (whitelistedProvider ?b0) providerNames)"
    by (auto simp: newCatalog_def)
  then show ?thesis
    unfolding catalogEntry_cong [OF sc] whitelistedProvider_cong [OF sc] by blast
qed

lemma serviceID_AWS: "serviceIDForProvider ''AWS'' = ''aosb-cluster-service-aws''"
  by code_simp

lemma ToLower_AWS: "ToLower ''AWS'' = ''aws''"
  by code_simp

lemma planID_AWS:
  "planIDForInstanceSize ''AWS'' \<lparr>is_Name = ''M10''\<rparr> '''' = ''aosb-cluster-plan-aws-m10''"
  "planIDForInstanceSize ''AWS'' \<lparr>is_Name = ''M20''\<rparr> '''' = ''aosb-cluster-plan-aws-m20''"
  by code_simp+

lemma sample_static_AWS:
  "buildService sampleEnv (b\<lparr>mode := BasicAuth\<rparr>) (sampleProvider ''AWS'') =
     (Returns (awsService [awsM10Plan, awsM20Plan]), b\<lparr>mode := BasicAuth\<rparr>)"
  by (simp add: buildService_def buildPlansForProvider_def buildPlansForProviderStatic_def
      sampleProvider_def sampleEnv_def awsService_def awsM10Plan_def awsM20Plan_def
      serviceID_AWS ToLower_AWS planID_AWS)

lemma sample_whitelist_run:
  "buildCatalog sampleEnv ((sampleBroker BasicAuth)\<lparr>whitelist := awsM10\<rparr>) =
     (Returns None,
      (sampleBroker BasicAuth)
        \<lparr>whitelist := awsM10,
         catalog := Some \<lparr>cat_services = [awsService [awsM10Plan]],
                          cat_providers = [''aosb-cluster-service-aws'' \<mapsto> sampleProvider ''AWS''],
                          cat_plans = [''aosb-cluster-plan-aws-m10'' \<mapsto> awsM10Plan]\<rparr>,
         fetched := [''AWS'']\<rparr>)"
  by (simp add: buildCatalog_def providerNames_def awsM10_def Let_def serviceForProvider_def
      publishService_def buildService_def buildPlansForProvider_def buildPlansForProviderStatic_def
      sampleProvider_def sampleEnv_def sampleBroker_def newCatalog_def applyWhitelist_def
      awsService_def awsM10Plan_def serviceID_AWS ToLower_AWS planID_AWS)

section \<open>Claims about the catalog builder\<close>

text \<open>
  C5. After a successful build the catalog holds, in the order of the provider names: with no
  whitelist configured, the service of every supported provider with all of its plans; with a
  whitelist configured, no service at all for a provider without an entry (the shared provider
  included) and, for a provider with an entry, its service restricted to the plans whose name
  is in the provider's whitelisted set.
\<close>

theorem whitelist_filters_catalog:
  assumes "buildCatalog e b = (Returns None, b')"
  shows "\<exists>c. catalog b' = Some c \<and>
     (case whitelist b of
        None \<Rightarrow> map Some (cat_services c) = map (builtService e b) providerNames
      | Some wl \<Rightarrow>
          map Some (cat_services c) =
            map (\<lambda>n. map_option (keepPlans (case wl n of None \<Rightarrow> [] | Some ps \<Rightarrow> ps))
                       (builtService e b n))
                (filter (\<lambda>n. wl n \<noteq> None) providerNames))"
proof -
  from buildCatalog_closed [OF assms] obtain c where c: "catalog b' = Some c"
    and s: "map Some (cat_services c) =
        map (catalogEntry e b) (filter (whitelistedProvider b) providerNames)" by blast
  show ?thesis
  proof (cases "whitelist b")
    case None
    then have "catalogEntry e b = builtService e b" "whitelistedProvider b = (\<lambda>n. True)"
      by (simp_all add: catalogEntry_def whitelistedProvider_def fun_eq_iff)
    with s c None show ?thesis by simp
  next
    case (Some wl)
    then have "catalogEntry e b =
        (\<lambda>n. map_option (keepPlans (case wl n of None \<Rightarrow> [] | Some ps \<Rightarrow> ps)) (builtService e b n))"
      "whitelistedProvider b = (\<lambda>n. wl n \<noteq> None)"
      by (simp_all add: catalogEntry_def whitelistedProvider_def whitelistedPlansOf_def fun_eq_iff)
    with s c Some show ?thesis by simp
  qed
qed

theorem whitelist_filters_catalog_witness:
  "\<exists>b'. buildCatalog sampleEnv ((sampleBroker BasicAuth)\<lparr>whitelist := awsM10\<rparr>) = (Returns None, b') \<and>
         builtService sampleEnv ((sampleBroker BasicAuth)\<lparr>whitelist := awsM10\<rparr>) ''AWS'' =
           Some (awsService [awsM10Plan, awsM20Plan]) \<and>
         (\<exists>c. catalog b' = Some c \<and> cat_services c = [awsService [awsM10Plan]])"
proof -
  let ?b = "(sampleBroker BasicAuth)\<lparr>whitelist := awsM10\<rparr>"
  have built: "builtService sampleEnv ?b ''AWS'' = Some (awsService [awsM10Plan, awsM20Plan])"
    by (simp add: builtService_def buildService_def buildPlansForProvider_def
        buildPlansForProviderStatic_def sampleProvider_def sampleEnv_def sampleBroker_def
        awsService_def awsM10Plan_def awsM20Plan_def serviceID_AWS ToLower_AWS planID_AWS)
  have keep: "keepPlans [''M10''] (awsService [awsM10Plan, awsM20Plan]) = awsService [awsM10Plan]"
    by (simp add: keepPlans_def awsService_def awsM10Plan_def awsM20Plan_def)
  have wl: "whitelist ?b = Some [''AWS'' \<mapsto> [''M10'']]" by (simp add: awsM10_def)
  from whitelist_filters_catalog [OF sample_whitelist_run]
  obtain c where c: "catalog
        ((sampleBroker BasicAuth)
          \<lparr>whitelist := awsM10,
           catalog := Some \<lparr>cat_services = [awsService [awsM10Plan]],
                            cat_providers = [''aosb-cluster-service-aws'' \<mapsto> sampleProvider ''AWS''],
                            cat_plans = [''aosb-cluster-plan-aws-m10'' \<mapsto> awsM10Plan]\<rparr>,
           fetched := [''AWS'']\<rparr>) = Some c"
    and s: "map Some (cat_services c) =
            map (\<lambda>n. map_option (keepPlans (case [''AWS'' \<mapsto> [''M10'']] n of None \<Rightarrow> [] | Some ps \<Rightarrow> ps))
                       (builtService sampleEnv ?b n))
                (filter (\<lambda>n. [''AWS'' \<mapsto> [''M10'']] n \<noteq> None) providerNames)"
    unfolding wl option.case by blast
  from s have "map Some (cat_services c) = map Some [awsService [awsM10Plan]]"
    by (simp add: providerNames_def built keep)
  then have "cat_services c = [awsService [awsM10Plan]]"
    by (simp only: inj_map_eq_map [OF inj_Some])
  with c built sample_whitelist_run show ?thesis by blast
qed

text \<open>
  C8. The shared provider (\<open>TENANT\<close>) is served from the hardcoded definition: its service has
  exactly the two plans M2 (\<open>aosb-cluster-plan-tenant-m2\<close>) and M5
  (\<open>aosb-cluster-plan-tenant-m5\<close>); producing it leaves the broker as it is, so nothing is
  requested from the backend; whatever the mode and however the build ends, no request for
  \<open>TENANT\<close> is among the backend requests of \<open>buildCatalog\<close>; and after a successful build in
  which the whitelist lets \<open>TENANT\<close> pass, the last service of the catalog is the hardcoded
  one (restricted to its whitelisted plans when a whitelist is configured).
\<close>

theorem shared_service_hardcoded:
  "map (\<lambda>p. (sp_Name p, sp_ID p)) (svc_Plans sharedService) =
     [(''M2'', ''aosb-cluster-plan-tenant-m2''), (''M5'', ''aosb-cluster-plan-tenant-m5'')] \<and>
   serviceForProvider e ''TENANT'' b = (Returns (Inr sharedService), b) \<and>
   (\<exists>new. fetched (snd (buildCatalog e b)) = fetched b @ new \<and> ''TENANT'' \<notin> set new) \<and>
   (\<forall>b'. buildCatalog e b = (Returns None, b') \<and> whitelistedProvider b ''TENANT'' \<longrightarrow>
      (\<exists>c. catalog b' = Some c \<and> cat_services c \<noteq> [] \<and>
           last (cat_services c) =
             (if whitelist b = None then sharedService
              else keepPlans (whitelistedPlansOf b ''TENANT'') sharedService)))"
proof (intro conjI allI impI)
  show "map (\<lambda>p. (sp_Name p, sp_ID p)) (svc_Plans sharedService) =
     [(''M2'', ''aosb-cluster-plan-tenant-m2''), (''M5'', ''aosb-cluster-plan-tenant-m5'')]"
    by (simp add: sharedService_def)
  show "serviceForProvider e ''TENANT'' b = (Returns (Inr sharedService), b)"
    by (simp add: serviceForProvider_def)
  show "\<exists>new. fetched (snd (buildCatalog e b)) = fetched b @ new \<and> ''TENANT'' \<notin> set new"
  proof -
    obtain r b' where run: "buildCatalogLoop e providerNames (b\<lparr>catalog := Some newCatalog\<rparr>) = (r, b')"
      by (cases "buildCatalogLoop e providerNames (b\<lparr>catalog := Some newCatalog\<rparr>)")
    from loop_fetched [OF run] run show ?thesis by (simp add: buildCatalog_def)
  qed
next
  fix b'
  assume a: "buildCatalog e b = (Returns None, b') \<and> whitelistedProvider b ''TENANT''"
  from buildCatalog_closed [of e b b'] a obtain c where c: "catalog b' = Some c"
    and s: "map Some (cat_services c) =
        map (catalogEntry e b) (filter (whitelistedProvider b) providerNames)" by blast
  have e: "catalogEntry e b ''TENANT'' =
      Some (if whitelist b = None then sharedService
            else keepPlans (whitelistedPlansOf b ''TENANT'') sharedService)"
    by (auto simp: catalogEntry_def builtService_def)
  have f: "filter (whitelistedProvider b) providerNames =
      filter (whitelistedProvider b) [''AWS'', ''GCP'', ''AZURE''] @ [''TENANT'']"
    using a by (simp add: providerNames_def)
  have "map Some (cat_services c) =
      map (catalogEntry e b) (filter (whitelistedProvider b) [''AWS'', ''GCP'', ''AZURE'']) @
      [Some (if whitelist b = None then sharedService
            else keepPlans (whitelistedPlansOf b ''TENANT'') sharedService)]"
    unfolding s f map_append using e by simp
  from map_Some_snoc [OF this] c
  show "\<exists>c. catalog b' = Some c \<and> cat_services c \<noteq> [] \<and>
           last (cat_services c) =
             (if whitelist b = None then sharedService
              else keepPlans (whitelistedPlansOf b ''TENANT'') sharedService)"
    by blast
qed

lemma sample_tenant_run:
  "buildCatalog sampleEnv ((sampleBroker MultiGroup)\<lparr>whitelist := tenantOnly\<rparr>) =
     (Returns None,
      (sampleBroker MultiGroup)
        \<lparr>whitelist := tenantOnly,
         catalog := Some \<lparr>cat_services = [keepPlans [''M2''] sharedService],
                          cat_providers = Map.empty,
                          cat_plans = [''aosb-cluster-plan-tenant-m2'' \<mapsto> hd (svc_Plans sharedService)]\<rparr>\<rparr>)"
  by (simp add: buildCatalog_def providerNames_def tenantOnly_def Let_def serviceForProvider_def
      publishService_def sampleBroker_def newCatalog_def applyWhitelist_def keepPlans_def
      sharedService_def)

theorem shared_service_hardcoded_witness:
  "whitelistedProvider ((sampleBroker MultiGroup)\<lparr>whitelist := tenantOnly\<rparr>) ''TENANT'' \<and>
   (\<exists>b' c. buildCatalog sampleEnv ((sampleBroker MultiGroup)\<lparr>whitelist := tenantOnly\<rparr>) = (Returns None, b') \<and>
      fetched b' = [] \<and> catalog b' = Some c \<and>
      last (cat_services c) = keepPlans [''M2''] sharedService)"
proof -
  let ?b = "(sampleBroker MultiGroup)\<lparr>whitelist := tenantOnly\<rparr>"
  have w: "whitelistedProvider ?b ''TENANT''"
    by (simp add: whitelistedProvider_def tenantOnly_def)
  have p: "whitelistedPlansOf ?b ''TENANT'' = [''M2'']"
    by (simp add: whitelistedPlansOf_def tenantOnly_def)
  have n: "whitelist ?b \<noteq> None" by (simp add: tenantOnly_def)
  from shared_service_hardcoded [of sampleEnv ?b] sample_tenant_run w
  obtain c where "catalog (snd (buildCatalog sampleEnv ?b)) = Some c"
    "last (cat_services c) = keepPlans [''M2''] sharedService"
    unfolding p using n by (auto simp del: Broker.update_convs)
  moreover have "fetched (snd (buildCatalog sampleEnv ?b)) = []"
    unfolding sample_tenant_run by (simp add: sampleBroker_def)
  ultimately show ?thesis using w sample_tenant_run
    by (auto simp del: Broker.update_convs)
qed

text \<open>The loop up to the first provider that the backend fails to deliver.\<close>

lemma serviceForProvider_built:
  assumes bs: "builtService e b n = Some svc" and c: "catalog b = Some c"
  shows "\<exists>b1. serviceForProvider e n b = (Returns (Inr svc), b1)"
proof (cases "n = ''TENANT''")
  case True
  with bs show ?thesis by (simp add: serviceForProvider_def builtService_def)
next
  case False
  with bs obtain u p where u: "rootURL e (baseURL b) = Some u"
    and g: "GetProvider e u n = Inr p" and r: "fst (buildService e b p) = Returns svc"
    by (auto simp: builtService_def split: option.splits sum.splits result.splits)
  let ?b0 = "b\<lparr>fetched := fetched b @ [n]\<rparr>"
  have "fst (buildService e ?b0 p) = fst (buildService e b p)"
    by (rule buildService_indep) simp_all
  with r obtain b1 where r0: "buildService e ?b0 p = (Returns svc, b1)"
    by (cases "buildService e ?b0 p") simp
  from buildService_state [OF r0] c have "catalog b1 = Some c" by auto
  with False u g r0 show ?thesis by (simp add: serviceForProvider_def Let_def)
qed

lemma serviceForProvider_fails:
  "n \<noteq> ''TENANT'' \<Longrightarrow> rootURL e (baseURL b) = Some u \<Longrightarrow> GetProvider e u n = Inl err \<Longrightarrow>
     fst (serviceForProvider e n b) = Returns (Inl err)"
  by (simp add: serviceForProvider_def Let_def)

lemma loop_fails_at:
  assumes "\<forall>k\<in>set pre. whitelistedProvider b k \<longrightarrow> builtService e b k \<noteq> None"
    and "whitelistedProvider b n" and "n \<noteq> ''TENANT''"
    and "rootURL e (baseURL b) = Some u" and "GetProvider e u n = Inl err"
    and "catalog b = Some c"
  shows "fst (buildCatalogLoop e (pre @ n # rest) b) = Returns (Some err)"
  using assms
proof (induction pre arbitrary: b c)
  case Nil
  from serviceForProvider_fails [OF Nil(3,4,5)] obtain b1 where
    "serviceForProvider e n b = (Returns (Inl err), b1)"
    by (cases "serviceForProvider e n b") simp
  with Nil(2) show ?case by (simp add: loop_take del: buildCatalogLoop.simps)
next
  case (Cons k pre)
  show ?case
  proof (cases "whitelistedProvider b k")
    case False
    then have "buildCatalogLoop e ((k # pre) @ n # rest) b = buildCatalogLoop e (pre @ n # rest) b"
      by (simp add: loop_skip del: buildCatalogLoop.simps)
    moreover have "fst (buildCatalogLoop e (pre @ n # rest) b) = Returns (Some err)"
      by (rule Cons.IH [OF _ Cons.prems(2-6)]) (use Cons.prems(1) in simp)
    ultimately show ?thesis by simp
  next
    case True
    with Cons.prems(1) obtain svc where bs: "builtService e b k = Some svc" by auto
    from serviceForProvider_built [OF bs Cons.prems(6)] obtain b1 where
      s: "serviceForProvider e k b = (Returns (Inr svc), b1)" ..
    note f1 = serviceForProvider_facts [OF s]
    from f1(3) [OF Cons.prems(6)] obtain c1 where c1: "catalog b1 = Some c1" by blast
    obtain r2 b2 where p: "publishService (whitelistedPlansOf b k) svc b1 = (r2, b2)"
      by (cases "publishService (whitelistedPlansOf b k) svc b1")
    note f2 = publishService_facts [OF p]
    from f2(3) [OF c1] obtain c2 where r2: "r2 = Returns ()" and c2: "catalog b2 = Some c2"
      by blast
    have cfg: "sameConfig b b2" by (rule sameConfig_trans [OF f1(1) f2(1)])
    have step: "buildCatalogLoop e ((k # pre) @ n # rest) b = buildCatalogLoop e (pre @ n # rest) b2"
      using True s p r2 by (simp add: loop_take del: buildCatalogLoop.simps)
    have "fst (buildCatalogLoop e (pre @ n # rest) b2) = Returns (Some err)"
    proof (rule Cons.IH [OF _ _ Cons.prems(3) _ Cons.prems(5) c2])
      show "\<forall>k\<in>set pre. whitelistedProvider b2 k \<longrightarrow> builtService e b2 k \<noteq> None"
        using Cons.prems(1)
        by (simp add: whitelistedProvider_cong [OF cfg] builtService_cong [OF cfg])
      show "whitelistedProvider b2 n"
        using Cons.prems(2) by (simp add: whitelistedProvider_cong [OF cfg])
      show "rootURL e (baseURL b2) = Some u"
        using Cons.prems(4) cfg by (simp add: sameConfig_def)
    qed
    with step show ?thesis by simp
  qed
qed

lemma build_fails_at:
  assumes names: "providerNames = pre @ n # rest"
    and pre: "\<forall>k\<in>set pre. whitelistedProvider b k \<longrightarrow> builtService e b k \<noteq> None"
    and n: "whitelistedProvider b n" "n \<noteq> ''TENANT''"
    and fetch: "rootURL e (baseURL b) = Some u" "GetProvider e u n = Inl err"
  shows "fst (buildCatalog e b) = Returns (Some err)"
proof -
  let ?b0 = "b\<lparr>catalog := Some newCatalog\<rparr>"
  have sc: "sameConfig b ?b0" by (simp add: sameConfig_def)
  have "fst (buildCatalogLoop e (pre @ n # rest) ?b0) = Returns (Some err)"
  proof (rule loop_fails_at [OF _ _ n(2) _ fetch(2)])
    show "\<forall>k\<in>set pre. whitelistedProvider ?b0 k \<longrightarrow> builtService e ?b0 k \<noteq> None"
      using pre by (simp add: whitelistedProvider_cong [OF sc] builtService_cong [OF sc])
    show "whitelistedProvider ?b0 n" using n(1) by (simp add: whitelistedProvider_cong [OF sc])
    show "rootURL e (baseURL ?b0) = Some u" using fetch(1) by simp
    show "catalog ?b0 = Some newCatalog" by simp
  qed
  then show ?thesis by (simp add: buildCatalog_def names)
qed

text \<open>The constructor and the catalog query on a broker that has a catalog.\<close>

lemma New_exits:
  assumes "fst (buildCatalog e (newBroker lg creds url wl m)) = Returns (Some err)"
  shows "fst (New e lg creds url wl m) = Exits ''Cannot build service catalog''"
proof -
  from assms obtain b1 where "buildCatalog e (newBroker lg creds url wl m) = (Returns (Some err), b1)"
    by (cases "buildCatalog e (newBroker lg creds url wl m)") simp
  then show ?thesis by (simp add: New_def newBroker_def Let_def)
qed

lemma New_returns:
  "New e lg creds url wl m = (Returns (), b') \<longleftrightarrow>
     buildCatalog e (newBroker lg creds url wl m) = (Returns None, b')"
  unfolding New_def Let_def newBroker_def [symmetric]
  by (auto split: prod.splits result.splits option.splits)

lemma Services_cached:
  "catalog b = Some c \<Longrightarrow>
     Services e b =
       (Returns (Inr (cat_services c)), b\<lparr>logger := logger b @ [LogInfo ''Retrieving service catalog'']\<rparr>)"
  by (simp add: Services_def Let_def)

lemma afterServices_catalog:
  "catalog b = Some c \<Longrightarrow> catalog (afterServices e k b) = Some c"
  by (induction k) (simp_all add: Services_cached)

lemma entry_fetched:
  assumes "catalogEntry e b n \<noteq> None" and "n \<noteq> ''TENANT''"
  shows "fetchedProvider e b n \<noteq> None"
proof -
  from assms(1) have "builtService e b n \<noteq> None"
    by (auto simp: catalogEntry_def split: option.splits)
  with assms(2) show ?thesis
    by (auto simp: builtService_def fetchedProvider_def split: option.splits sum.splits)
qed

lemma sample_newBroker:
  "newBroker [] (Some sampleCredentials) ''https://cloud.mongodb.com'' None m = sampleBroker m"
  by (simp add: newBroker_def sampleBroker_def)

lemma sample_static_builds: "fst (buildCatalog sampleEnv (sampleBroker BasicAuth)) = Returns None"
  by (simp add: buildCatalog_def providerNames_def Let_def serviceForProvider_def
      publishService_def buildService_def buildPlansForProvider_def
      sampleEnv_def sampleBroker_def newCatalog_def)

lemma failing_static_AWS:
  "builtService failingEnv (sampleBroker BasicAuth) ''AWS'' = Some (awsService [awsM10Plan, awsM20Plan])"
  by (simp add: builtService_def failingEnv_def sampleEnv_def sampleBroker_def buildService_def
      buildPlansForProvider_def buildPlansForProviderStatic_def sampleProvider_def awsService_def
      awsM10Plan_def awsM20Plan_def serviceID_AWS ToLower_AWS planID_AWS)

text \<open>
  C4. When the backend fails to deliver the metadata of a provider during the construction of
  the catalog (the providers before it having been processed), \<open>buildCatalog\<close> returns the
  backend's error and \<open>New\<close> ends the process with the fatal entry, so that no broker comes
  into being. Conversely, whenever \<open>New\<close> returns a broker, every provider that passes the
  whitelist was delivered by the backend, the catalog lists the service of each of them, in
  order, and every later catalog query returns exactly this list: a catalog holding only the
  providers processed before a failure is never observed.
\<close>

theorem failed_fetch_publishes_nothing:
  assumes b: "b = newBroker lg creds url wl m"
  shows
    "(providerNames = pre @ n # rest \<longrightarrow>
        (\<forall>k\<in>set pre. whitelistedProvider b k \<longrightarrow> builtService e b k \<noteq> None) \<longrightarrow>
        whitelistedProvider b n \<longrightarrow> n \<noteq> ''TENANT'' \<longrightarrow>
        rootURL e url = Some u \<longrightarrow> GetProvider e u n = Inl err \<longrightarrow>
          fst (buildCatalog e b) = Returns (Some err) \<and>
          fst (New e lg creds url wl m) = Exits ''Cannot build service catalog'') \<and>
     (New e lg creds url wl m = (Returns (), b') \<longrightarrow>
        (\<forall>k\<in>set providerNames. whitelistedProvider b k \<longrightarrow> k \<noteq> ''TENANT'' \<longrightarrow>
           fetchedProvider e b k \<noteq> None) \<and>
        (\<exists>c. catalog b' = Some c \<and>
             map Some (cat_services c) =
               map (catalogEntry e b) (filter (whitelistedProvider b) providerNames) \<and>
             (\<forall>j. fst (Services e (afterServices e j b')) = Returns (Inr (cat_services c)))))"
proof (intro conjI impI)
  assume names: "providerNames = pre @ n # rest"
    and pre: "\<forall>k\<in>set pre. whitelistedProvider b k \<longrightarrow> builtService e b k \<noteq> None"
    and n: "whitelistedProvider b n" "n \<noteq> ''TENANT''"
    and fetch: "rootURL e url = Some u" "GetProvider e u n = Inl err"
  have url: "baseURL b = url" by (simp add: b newBroker_def)
  show r: "fst (buildCatalog e b) = Returns (Some err)"
    by (rule build_fails_at [OF names pre n _ fetch(2)]) (simp add: url fetch(1))
  show "fst (New e lg creds url wl m) = Exits ''Cannot build service catalog''"
    by (rule New_exits) (use r b in simp)
next
  assume "New e lg creds url wl m = (Returns (), b')"
  then have build: "buildCatalog e b = (Returns None, b')" by (simp add: New_returns b)
  from buildCatalog_closed [OF build] obtain c where c: "catalog b' = Some c"
    and s: "map Some (cat_services c) =
      map (catalogEntry e b) (filter (whitelistedProvider b) providerNames)" by blast
  show "\<forall>k\<in>set providerNames. whitelistedProvider b k \<longrightarrow> k \<noteq> ''TENANT'' \<longrightarrow>
      fetchedProvider e b k \<noteq> None"
  proof (intro ballI impI)
    fix k assume k: "k \<in> set providerNames" "whitelistedProvider b k" "k \<noteq> ''TENANT''"
    then have "catalogEntry e b k \<in> set (map (catalogEntry e b) (filter (whitelistedProvider b) providerNames))"
      by simp
    then have "catalogEntry e b k \<in> set (map Some (cat_services c))" by (simp only: s)
    then have "catalogEntry e b k \<noteq> None" by auto
    then show "fetchedProvider e b k \<noteq> None" using k(3) by (rule entry_fetched)
  qed
  have "\<forall>j. fst (Services e (afterServices e j b')) = Returns (Inr (cat_services c))"
    by (simp add: Services_cached [OF afterServices_catalog [OF c]])
  with c s
  show "\<exists>c. catalog b' = Some c \<and>
      map Some (cat_services c) =
        map (catalogEntry e b) (filter (whitelistedProvider b) providerNames) \<and>
      (\<forall>j. fst (Services e (afterServices e j b')) = Returns (Inr (cat_services c)))"
    by blast
qed

theorem failed_fetch_publishes_nothing_witness:
  "providerNames = [''AWS''] @ ''GCP'' # [''AZURE'', ''TENANT''] \<and>
   builtService failingEnv (sampleBroker BasicAuth) ''AWS'' = Some (awsService [awsM10Plan, awsM20Plan]) \<and>
   whitelistedProvider (sampleBroker BasicAuth) ''GCP'' \<and>
   rootURL failingEnv ''https://cloud.mongodb.com'' = Some ''https://cloud.mongodb.com'' \<and>
   GetProvider failingEnv ''https://cloud.mongodb.com'' ''GCP'' = Inl (External ''backend unavailable'') \<and>
   fst (buildCatalog failingEnv (sampleBroker BasicAuth)) = Returns (Some (External ''backend unavailable'')) \<and>
   fst (New failingEnv [] (Some sampleCredentials) ''https://cloud.mongodb.com'' None BasicAuth) =
     Exits ''Cannot build service catalog'' \<and>
   (\<exists>b' c. New sampleEnv [] (Some sampleCredentials) ''https://cloud.mongodb.com'' None BasicAuth =
              (Returns (), b') \<and>
            catalog b' = Some c \<and> length (cat_services c) = 4 \<and>
            (\<forall>j. fst (Services sampleEnv (afterServices sampleEnv j b')) = Returns (Inr (cat_services c))))"
proof -
  let ?url = "''https://cloud.mongodb.com''"
  note nb = sample_newBroker [of BasicAuth, symmetric]
  have h: "providerNames = [''AWS''] @ ''GCP'' # [''AZURE'', ''TENANT'']"
    "\<forall>k\<in>set [''AWS'']. whitelistedProvider (sampleBroker BasicAuth) k \<longrightarrow>
        builtService failingEnv (sampleBroker BasicAuth) k \<noteq> None"
    "whitelistedProvider (sampleBroker BasicAuth) ''GCP''" "''GCP'' \<noteq> ''TENANT''"
    "rootURL failingEnv ?url = Some ?url"
    "GetProvider failingEnv ?url ''GCP'' = Inl (External ''backend unavailable'')"
    by (simp_all add: providerNames_def failing_static_AWS)
       (simp_all add: whitelistedProvider_def sampleBroker_def failingEnv_def sampleEnv_def)
  from failed_fetch_publishes_nothing [OF nb, of "[''AWS'']" "''GCP''" "[''AZURE'', ''TENANT'']"
      failingEnv ?url "External ''backend unavailable''"] h
  have a: "fst (buildCatalog failingEnv (sampleBroker BasicAuth)) =
        Returns (Some (External ''backend unavailable''))"
    "fst (New failingEnv [] (Some sampleCredentials) ?url None BasicAuth) =
        Exits ''Cannot build service catalog''"
    by blast+
  obtain b' where run: "New sampleEnv [] (Some sampleCredentials) ?url None BasicAuth = (Returns (), b')"
    using sample_static_builds
    by (cases "buildCatalog sampleEnv (sampleBroker BasicAuth)") (simp add: New_returns sample_newBroker)
  from failed_fetch_publishes_nothing [OF nb, of _ _ _ sampleEnv _ _ b'] run
  obtain c where c: "catalog b' = Some c"
    "map Some (cat_services c) =
       map (catalogEntry sampleEnv (sampleBroker BasicAuth))
         (filter (whitelistedProvider (sampleBroker BasicAuth)) providerNames)"
    "\<forall>j. fst (Services sampleEnv (afterServices sampleEnv j b')) = Returns (Inr (cat_services c))"
    by blast
  have "length (map Some (cat_services c)) = 4"
    unfolding c(2) by (simp add: whitelistedProvider_def sampleBroker_def providerNames_def)
  then have "length (cat_services c) = 4" by simp
  with run c(1,3) have
    "\<exists>b' c. New sampleEnv [] (Some sampleCredentials) ?url None BasicAuth = (Returns (), b') \<and>
        catalog b' = Some c \<and> length (cat_services c) = 4 \<and>
        (\<forall>j. fst (Services sampleEnv (afterServices sampleEnv j b')) = Returns (Inr (cat_services c)))"
    by blast
  with a h(1,3,5,6) failing_static_AWS show ?thesis by simp
qed

section \<open>Facts about the resolver\<close>

lemma parsePlan_state:
  "parsePlan e b planID rawParams = (r, b') \<Longrightarrow> \<exists>lg. b' = b\<lparr>logger := lg\<rparr>"
proof -
  assume a: "parsePlan e b planID rawParams = (r, b')"
  have "b' = b \<or> b' = b\<lparr>logger := logger b @ [LogInfo ''Parsed plan'']\<rparr>"
    using a unfolding parsePlan_def Let_def
    by (auto split: option.splits sum.splits meta.splits if_splits)
  then show ?thesis
  proof
    assume "b' = b"
    then have "b' = b\<lparr>logger := logger b\<rparr>" by simp
    then show ?thesis ..
  next
    assume "b' = b\<lparr>logger := logger b @ [LogInfo ''Parsed plan'']\<rparr>"
    then show ?thesis ..
  qed
qed


lemma getGroupID_none:
  "GetInstance e i = Inl ErrNoDocuments \<Longrightarrow> getGroupIDByInstanceID e i = ('''', None)"
  by (simp add: getGroupIDByInstanceID_def getInstanceState_def)


lemma sample_parse_minimal:
  "parsePlan sampleEnv dynCatalogBroker ''minimal'' '''' =
     (Returns (Inr planMinimal), dynCatalogBroker\<lparr>logger := [LogInfo ''Parsed plan'']\<rparr>)"
  by (simp add: parsePlan_def dynCatalogBroker_def sampleBroker_def dynamicPlan_def Let_def
      tplMinimal_def sampleEnv_def sampleDecode_def)


section \<open>Claims about the resolver\<close>




text \<open>
  C10. In DynamicPlans mode, for an instance without persisted metadata whose plan renders to
  a Plan with a Project whose ID is empty, \<open>getClient\<close> does not raise the missing-Project
  error: it leaves the switch with the empty tenant ID and fails at the credential lookup with
  the credentials-not-found error for project ID \<open>""\<close>, provided no credential entry is keyed
  by the empty string.
\<close>

theorem empty_project_id_falls_through:
  assumes "mode b = DynamicPlans" and "GetInstance e i = Inl ErrNoDocuments"
    and p: "parsePlan e b planID rawParams = (Returns (Inr dp), b1)"
    and "dp_Project dp = Some pr" and "proj_ID pr = ''''"
    and c: "credentials b = Some creds" and "map_of (Projects creds) '''' = None"
  shows "getClient e b rc i planID rawParams =
           (Returns (None, '''', Some (CredentialsNotFound '''')), b1)"
proof -
  from parsePlan_state [OF p] c have "credentials b1 = Some creds" by auto
  with assms show ?thesis
    by (simp add: getClient_def getGroupID_none clientForGroup_def)
qed

theorem empty_project_id_falls_through_witness:
  "getClient sampleEnv dynCatalogBroker noRequestContext ''new'' ''minimal'' '''' =
     (Returns (None, '''', Some (CredentialsNotFound '''')),
      dynCatalogBroker\<lparr>logger := [LogInfo ''Parsed plan'']\<rparr>)"
proof -
  have 1: "mode dynCatalogBroker = DynamicPlans"
    and 2: "GetInstance sampleEnv ''new'' = Inl ErrNoDocuments"
    and 3: "dp_Project planMinimal = Some \<lparr>proj_ID = ''''\<rparr>"
    and 4: "proj_ID \<lparr>proj_ID = ''''\<rparr> = ''''"
    and 5: "credentials dynCatalogBroker = Some sampleCredentials"
    and 6: "map_of (Projects sampleCredentials) '''' = None"
    by (simp_all add: dynCatalogBroker_def sampleBroker_def sampleEnv_def sampleInstance_def
        planMinimal_def sampleCredentials_def Let_def)
  show ?thesis by (rule empty_project_id_falls_through [OF 1 2 sample_parse_minimal 3 4 5 6])
qed

section \<open>Identifiers across the catalog\<close>

lemma planPrefix_values:
  "planPrefix ''AWS'' = ''aosb-cluster-plan-aws-''"
  "planPrefix ''GCP'' = ''aosb-cluster-plan-gcp-''"
  "planPrefix ''AZURE'' = ''aosb-cluster-plan-azure-''"
  "planPrefix ''TENANT'' = ''aosb-cluster-plan-tenant-''"
  by code_simp+

lemma planTag_prefix:
  "n \<in> set providerNames \<Longrightarrow> planTag (planPrefix n @ rest) = n"
  by (auto simp: providerNames_def planPrefix_values planTag_def)

lemma planPrefix_cong: "ToLower m = ToLower n \<Longrightarrow> planPrefix m = planPrefix n"
  by (simp add: planPrefix_def)

lemma serviceID_cong: "ToLower m = ToLower n \<Longrightarrow> serviceIDForProvider m = serviceIDForProvider n"
  by (simp add: serviceIDForProvider_def)

lemma serviceIDs_distinct: "distinct (map serviceIDForProvider providerNames)"
proof -
  have "map serviceIDForProvider providerNames =
      [''aosb-cluster-service-aws'', ''aosb-cluster-service-gcp'',
       ''aosb-cluster-service-azure'', ''aosb-cluster-service-tenant'']"
    by code_simp
  then show ?thesis by simp
qed

lemma distinct_concat_tagged:
  "distinct ns \<Longrightarrow> (\<forall>n\<in>set ns. distinct (f n)) \<Longrightarrow> (\<forall>n\<in>set ns. \<forall>x\<in>set (f n). tag x = n) \<Longrightarrow>
     distinct (concat (map f ns))"
proof (induction ns)
  case Nil
  show ?case by simp
next
  case (Cons n ns)
  then have "distinct (concat (map f ns))" by simp
  moreover have "distinct (f n)" using Cons.prems by simp
  moreover have "set (f n) \<inter> set (concat (map f ns)) = {}"
  proof (rule ccontr)
    assume "set (f n) \<inter> set (concat (map f ns)) \<noteq> {}"
    then obtain x m where "x \<in> set (f n)" "m \<in> set ns" "x \<in> set (f m)" by auto
    with Cons.prems(3) have "tag x = n" "tag x = m" by auto
    with \<open>m \<in> set ns\<close> Cons.prems(1) show False by auto
  qed
  ultimately show ?case by simp
qed

text \<open>The plans of the static and the dynamic strategy: the ID is a function of the name.\<close>

lemma static_ids:
  "pl \<in> set (buildPlansForProviderStatic e p) \<Longrightarrow>
     sp_ID pl = planPrefix (prov_Name p) @ ToLower (sp_Name pl)"
  by (auto simp: buildPlansForProviderStatic_def planIDForInstanceSize_def planPrefix_def)

lemma templateStep_ids:
  "pl \<in> set (fst (templateStep e p ctx t)) \<Longrightarrow>
     sp_ID pl = planPrefix (prov_Name p) @ ToLower (sp_Name pl)"
  by (auto simp: templateStep_def dynamicPlan_def planIDForDynamicPlan_def planPrefix_def
      split: sum.splits if_splits)

lemma dynamic_ids:
  "fst (buildPlansForProviderDynamic e b p) = Returns ps \<Longrightarrow> pl \<in> set ps \<Longrightarrow>
     sp_ID pl = planPrefix (prov_Name p) @ ToLower (sp_Name pl)"
  by (auto simp: buildPlansForProviderDynamic_def dynamicLoop_closed templateStep_ids
      split: sum.splits)

lemma auto_ids:
  "buildPlansForProviderAuto e b p = Returns ps \<Longrightarrow> pl \<in> set ps \<Longrightarrow>
     \<exists>rest. sp_ID pl = planPrefix (prov_Name p) @ rest"
  by (auto simp: buildPlansForProviderAuto_def autoPlan_def planIDForInstanceSize_def planPrefix_def
      Let_def split: if_splits option.splits)

lemma distinct_by_name:
  assumes ids: "\<forall>pl\<in>set ps. sp_ID pl = pre @ ToLower (sp_Name pl)"
    and d: "distinct (map (\<lambda>pl. ToLower (sp_Name pl)) ps)"
  shows "distinct (map sp_ID ps)"
proof -
  have "map sp_ID ps = map (\<lambda>pl. pre @ ToLower (sp_Name pl)) ps"
    using ids by simp
  moreover have "distinct (map (\<lambda>pl. pre @ ToLower (sp_Name pl)) ps)"
    using d by (auto simp: distinct_map inj_on_def)
  ultimately show ?thesis by (simp only:)
qed

lemma concat_map_product:
  "concat (map (\<lambda>x. map (f x) ys) xs) = map (\<lambda>(x, y). f x y) (List.product xs ys)"
  by (induction xs) simp_all

lemma auto_distinct:
  assumes run: "buildPlansForProviderAuto e b p = Returns ps"
    and dp: "dashFree (prov_Name p)"
    and sizes0: "distinct (map ToLower (sizeNames p))"
    and dash0: "\<forall>s\<in>set (sizeNames p). dashFree s"
    and keys: "\<forall>creds. credentials b = Some creds \<longrightarrow> distinct (map fst (Projects creds))"
  shows "distinct (map sp_ID ps)"
proof (cases "prov_InstanceSizes p = []")
  case True
  with run show ?thesis by (simp add: buildPlansForProviderAuto_def)
next
  case False
  from sizes0 have sizes: "distinct (map (\<lambda>(k, sz). ToLower (is_Name sz)) (prov_InstanceSizes p))"
    by (simp add: sizeNames_def comp_def split_def)
  from dash0 have dash: "\<forall>(k, sz)\<in>set (prov_InstanceSizes p). dashFree (is_Name sz)"
    by (auto simp: sizeNames_def)
  from False run obtain creds where c: "credentials b = Some creds"
    and ps: "ps = concat (map (\<lambda>(k, sz). map (autoPlan e p sz) (Projects creds)) (prov_InstanceSizes p))"
    by (auto simp: buildPlansForProviderAuto_def split: option.splits)
  let ?szs = "prov_InstanceSizes p" and ?prj = "Projects creds"
  let ?id = "\<lambda>(ksz, ent). planIDForInstanceSize (prov_Name p) (snd ksz) (fst ent)"
  have "ps = map (\<lambda>(ksz, ent). autoPlan e p (snd ksz) ent) (List.product ?szs ?prj)"
    unfolding ps concat_map_product [symmetric] by (simp add: split_def)
  then have ids: "map sp_ID ps = map ?id (List.product ?szs ?prj)"
    by (simp add: autoPlan_def split_def Let_def)
  have d1: "distinct ?szs" using sizes by (simp add: distinct_map)
  have d2: "distinct ?prj" using keys c by (simp add: distinct_map)
  have inj: "inj_on ?id (set (List.product ?szs ?prj))"
  proof (rule inj_onI)
    fix x y
    assume x: "x \<in> set (List.product ?szs ?prj)" and y: "y \<in> set (List.product ?szs ?prj)"
      and eq: "?id x = ?id y"
    obtain k1 s1 g1 a1 where x': "x = ((k1, s1), (g1, a1))" by (cases x) auto
    obtain k2 s2 g2 a2 where y': "y = ((k2, s2), (g2, a2))" by (cases y) auto
    from x x' have xs: "(k1, s1) \<in> set ?szs" "(g1, a1) \<in> set ?prj" by auto
    from y y' have ys: "(k2, s2) \<in> set ?szs" "(g2, a2) \<in> set ?prj" by auto
    from dash xs(1) ys(1) have df: "dashFree (is_Name s1)" "dashFree (is_Name s2)" by auto
    from eq x' y' have "planIDForInstanceSize (prov_Name p) s1 g1 = planIDForInstanceSize (prov_Name p) s2 g2"
      by simp
    with planID_injective [OF dp df(1) dp df(2)]
    have l: "ToLower (is_Name s1) = ToLower (is_Name s2)" and g: "g1 = g2" by simp_all
    from sizes have i1: "inj_on (\<lambda>(k, sz). ToLower (is_Name sz)) (set ?szs)"
      by (simp add: distinct_map)
    from keys c have i2: "inj_on fst (set ?prj)" by (simp add: distinct_map)
    have "(k1, s1) = (k2, s2)" using inj_onD [OF i1 _ xs(1) ys(1)] l by simp
    moreover have "(g1, a1) = (g2, a2)" using inj_onD [OF i2 _ xs(2) ys(2)] g by simp
    ultimately show "x = y" using x' y' by simp
  qed
  show ?thesis
    unfolding ids using inj d1 d2 by (simp add: distinct_map distinct_product)
qed


lemma serviceID_TENANT: "serviceIDForProvider ''TENANT'' = ''aosb-cluster-service-tenant''"
  by code_simp

lemma providerNames_dashFree: "n \<in> set providerNames \<Longrightarrow> dashFree n"
  by (auto simp: providerNames_def dashFree_def)

text \<open>The names of the plans that the static and the dynamic strategy build.\<close>

lemma static_names: "map sp_Name (buildPlansForProviderStatic e p) = sizeNames p"
  by (simp add: buildPlansForProviderStatic_def sizeNames_def comp_def split_def)

lemma templateStep_names:
  "map sp_Name (fst (templateStep e p ctx t)) =
     (case acceptedPlanName e p ctx t of None \<Rightarrow> [] | Some s \<Rightarrow> [s])"
  by (simp add: templateStep_def acceptedPlanName_def dynamicPlan_def split: sum.splits)

lemma concat_map_option:
  "concat (map (\<lambda>t. case f t of None \<Rightarrow> [] | Some s \<Rightarrow> [s]) ts) = List.map_filter f ts"
  by (induction ts) (simp_all add: List.map_filter_simps split: option.splits)

lemma dynamic_names:
  assumes "fst (buildPlansForProviderDynamic e b p) = Returns ps"
  shows "map sp_Name ps = templatePlanNames e b p"
proof (cases "FromEnv e")
  case (Inl err)
  with assms show ?thesis by (simp add: buildPlansForProviderDynamic_def)
next
  case (Inr ts)
  from assms buildPlansForProviderDynamic_closed [OF Inr, of b p]
  have "ps = concat (map (\<lambda>t. fst (templateStep e p (providerCtx b p) t)) ts)" by simp
  then have "map sp_Name ps =
      concat (map (\<lambda>t. map sp_Name (fst (templateStep e p (providerCtx b p) t))) ts)"
    by (simp add: map_concat comp_def)
  also have "\<dots> = List.map_filter (acceptedPlanName e p (providerCtx b p)) ts"
    by (simp only: templateStep_names concat_map_option)
  finally show ?thesis by (simp add: templatePlanNames_def Inr)
qed

lemma built_properties:
  assumes n: "n \<in> set providerNames"
    and built: "builtService e b n = Some svc"
    and names: "backendKeepsNames e b"
    and inputs: "uniqueInputs e b"
  shows "svc_ID svc = serviceIDForProvider n"
    and "distinct (map sp_ID (svc_Plans svc))"
    and "\<forall>pl\<in>set (svc_Plans svc). \<exists>rest. sp_ID pl = planPrefix n @ rest"
proof -
  have "svc_ID svc = serviceIDForProvider n \<and> distinct (map sp_ID (svc_Plans svc)) \<and>
      (\<forall>pl\<in>set (svc_Plans svc). \<exists>rest. sp_ID pl = planPrefix n @ rest)"
  proof (cases "n = ''TENANT''")
    case True
    with built have "svc = sharedService" by (simp add: builtService_def)
    with True show ?thesis
      by (simp add: sharedService_def serviceID_TENANT planPrefix_values)
  next
    case False
    with built obtain p where f: "fetchedProvider e b n = Some p"
      and bs: "fst (buildService e b p) = Returns svc"
      by (auto simp: builtService_def fetchedProvider_def split: option.splits sum.splits result.splits)
    obtain r0 b0 where pl: "buildPlansForProvider e b p = (r0, b0)"
      by (cases "buildPlansForProvider e b p")
    from bs pl obtain ps where r0: "r0 = Returns ps"
      and id: "svc_ID svc = serviceIDForProvider (prov_Name p)" and sp: "svc_Plans svc = ps"
      by (cases r0) (auto simp: buildService_def Let_def)
    from names n f have low: "ToLower (prov_Name p) = ToLower n"
      by (auto simp: backendKeepsNames_def)
    have pre: "planPrefix (prov_Name p) = planPrefix n" by (rule planPrefix_cong [OF low])
    have dp: "dashFree (prov_Name p)"
      using providerNames_dashFree [OF n] dashFree_ToLower [of n] dashFree_ToLower [of "prov_Name p"] low
      by simp
    have 1: "svc_ID svc = serviceIDForProvider n" unfolding id by (rule serviceID_cong [OF low])
    have byName: "distinct (map (\<lambda>pl. ToLower (sp_Name pl)) ps)"
      if "distinct (map ToLower (map sp_Name ps))"
      using that by (simp add: comp_def)
    have 23: "distinct (map sp_ID ps) \<and> (\<forall>pl\<in>set ps. \<exists>rest. sp_ID pl = planPrefix n @ rest)"
    proof (cases "mode b")
      case BasicAuth
      with pl r0 have ps: "ps = buildPlansForProviderStatic e p"
        by (simp add: buildPlansForProvider_def)
      have ids: "\<forall>pl\<in>set ps. sp_ID pl = planPrefix n @ ToLower (sp_Name pl)"
        unfolding ps using static_ids [of _ e p] pre by simp
      from inputs BasicAuth n f have "distinct (map ToLower (sizeNames p))"
        by (auto simp: uniqueInputs_def staticInputsDistinct_def)
      then have "distinct (map ToLower (map sp_Name ps))"
        by (simp only: ps static_names)
      from distinct_by_name [OF ids byName [OF this]] ids show ?thesis by auto
    next
      case DynamicPlans
      with pl r0 have run: "fst (buildPlansForProviderDynamic e b p) = Returns ps"
        by (simp add: buildPlansForProvider_def)
      from dynamic_ids [OF run] pre
      have ids: "\<forall>pl\<in>set ps. sp_ID pl = planPrefix n @ ToLower (sp_Name pl)" by simp
      from inputs DynamicPlans n f have "distinct (map ToLower (templatePlanNames e b p))"
        by (auto simp: uniqueInputs_def dynamicInputsDistinct_def)
      then have "distinct (map ToLower (map sp_Name ps))"
        by (simp only: dynamic_names [OF run])
      from distinct_by_name [OF ids byName [OF this]] ids show ?thesis by auto
    next
      case MultiGroupAutoPlans
      with pl r0 have run: "buildPlansForProviderAuto e b p = Returns ps"
        by (auto simp: buildPlansForProvider_def)
      from inputs MultiGroupAutoPlans have a: "autoInputsDistinct e b"
        by (simp add: uniqueInputs_def)
      from a have A: "\<forall>n\<in>set providerNames.
          case fetchedProvider e b n of
            None \<Rightarrow> True
          | Some p \<Rightarrow>
              (\<forall>s\<in>set (sizeNames p). isASCII s \<and> dashFree s) \<and>
              distinct (map ToLower (sizeNames p))"
        and K: "case credentials b of None \<Rightarrow> True | Some creds \<Rightarrow> distinct (map fst (Projects creds))"
        by (simp_all add: autoInputsDistinct_def)
      from bspec [OF A n] f
      have s: "distinct (map ToLower (sizeNames p))"
        and d: "\<forall>s\<in>set (sizeNames p). dashFree s"
        by simp_all
      from K have k: "\<forall>creds. credentials b = Some creds \<longrightarrow> distinct (map fst (Projects creds))"
        by (cases "credentials b") simp_all
      from auto_distinct [OF run dp s d k] auto_ids [OF run] pre show ?thesis by simp
    next
      case MultiGroup
      with pl r0 show ?thesis by (simp add: buildPlansForProvider_def)
    next
      case (OtherMode k)
      with pl r0 show ?thesis by (simp add: buildPlansForProvider_def)
    qed
    with 1 sp show ?thesis by simp
  qed
  then show "svc_ID svc = serviceIDForProvider n"
    and "distinct (map sp_ID (svc_Plans svc))"
    and "\<forall>pl\<in>set (svc_Plans svc). \<exists>rest. sp_ID pl = planPrefix n @ rest"
    by simp_all
qed

lemma entry_properties:
  assumes n: "n \<in> set providerNames"
    and entry: "catalogEntry e b n = Some svc"
    and names: "backendKeepsNames e b"
    and inputs: "uniqueInputs e b"
  shows "svc_ID svc = serviceIDForProvider n"
    and "distinct (map sp_ID (svc_Plans svc))"
    and "\<forall>pl\<in>set (svc_Plans svc). planTag (sp_ID pl) = n"
proof -
  from entry obtain svc0 ws where built: "builtService e b n = Some svc0"
    and shape: "svc = svc0 \<or> svc = keepPlans ws svc0"
    by (auto simp: catalogEntry_def split: option.splits)
  note p = built_properties [OF n built names inputs]
  from shape have id: "svc_ID svc = svc_ID svc0"
    and pls: "svc_Plans svc = svc_Plans svc0 \<or>
        svc_Plans svc = filter (\<lambda>pl. sp_Name pl \<in> set ws) (svc_Plans svc0)"
    by (auto simp: keepPlans_def)
  show "svc_ID svc = serviceIDForProvider n" using id p(1) by simp
  show "distinct (map sp_ID (svc_Plans svc))"
    using pls p(2) by (auto simp: distinct_map_filter)
  have tag: "planTag (sp_ID pl) = n" if "pl \<in> set (svc_Plans svc0)" for pl
  proof -
    from p(3) that obtain rest where "sp_ID pl = planPrefix n @ rest" by blast
    then show ?thesis by (simp add: planTag_prefix [OF n])
  qed
  show "\<forall>pl\<in>set (svc_Plans svc). planTag (sp_ID pl) = n"
    using pls tag by auto
qed

lemma planID_minimal:
  "planIDForDynamicPlan ''AWS'' ''minimal-plan'' = ''aosb-cluster-plan-aws-minimal-plan''"
  by code_simp

lemma copy_run:
  "fst (buildCatalog copyEnv (sampleBroker DynamicPlans)) = Returns None \<and>
   map_option planIDs (catalog (snd (buildCatalog copyEnv (sampleBroker DynamicPlans)))) =
     Some [''aosb-cluster-plan-aws-minimal-plan'', ''aosb-cluster-plan-aws-minimal-plan'',
           ''aosb-cluster-plan-tenant-m2'', ''aosb-cluster-plan-tenant-m5'']"
  by (simp add: buildCatalog_def providerNames_def Let_def serviceForProvider_def
      publishService_def buildService_def buildPlansForProvider_def buildPlansForProviderDynamic_def
      providerCtx_def DefaultCtx_def sampleProvider_def copyEnv_def sampleEnv_def sampleBroker_def
      newCatalog_def tplMinimal_def tplMinimalCopy_def sampleDecode_def planMinimal_def
      invalidPlan_def declaredProviderName_def dynamicPlan_def planIDs_def sharedService_def
      planID_minimal)

lemma ToLower_sizes:
  "ToLower ''M10'' = ''m10''" "ToLower ''M20'' = ''m20''" "ToLower ''M2'' = ''m2''"
  "ToLower ''M5'' = ''m5''"
  by code_simp+

lemma ToLower_plans:
  "ToLower ''minimal-plan'' = ''minimal-plan''" "ToLower ''no-project'' = ''no-project''"
  by code_simp+

lemma planID_noproject:
  "planIDForDynamicPlan ''AWS'' ''no-project'' = ''aosb-cluster-plan-aws-no-project''"
  by code_simp

lemma sample_names: "backendKeepsNames sampleEnv (sampleBroker m)"
  by (simp add: backendKeepsNames_def fetchedProvider_def providerNames_def sampleEnv_def
      sampleProvider_def isASCII_def)

lemma two_names: "backendKeepsNames twoPlansEnv (sampleBroker m)"
  by (simp add: backendKeepsNames_def fetchedProvider_def providerNames_def twoPlansEnv_def
      sampleEnv_def sampleProvider_def isASCII_def)

lemma sample_static_inputs: "uniqueInputs sampleEnv (sampleBroker BasicAuth)"
  by (simp add: uniqueInputs_def staticInputsDistinct_def sizeNames_def providerNames_def
      fetchedProvider_def sampleEnv_def sampleProvider_def sampleBroker_def ToLower_sizes
      isASCII_def)

lemma sample_auto_inputs: "uniqueInputs sampleEnv (sampleBroker MultiGroupAutoPlans)"
  by (simp add: uniqueInputs_def autoInputsDistinct_def sizeNames_def providerNames_def
      fetchedProvider_def sampleEnv_def sampleProvider_def sampleBroker_def sampleCredentials_def
      ToLower_sizes dashFree_def isASCII_def)

lemma two_plan_names:
  "templatePlanNames twoPlansEnv (sampleBroker DynamicPlans) (sampleProvider n) =
     (if n = ''AWS'' then [''minimal-plan'', ''no-project''] else [])"
  by (simp add: templatePlanNames_def acceptedPlanName_def twoPlansEnv_def sampleEnv_def
      List.map_filter_simps tplMinimal_def tplNoProject_def sampleDecode_def planMinimal_def
      planNoProject_def invalidPlan_def declaredProviderName_def sampleProvider_def)

lemma two_dynamic_inputs: "uniqueInputs twoPlansEnv (sampleBroker DynamicPlans)"
proof -
  have f: "fetchedProvider twoPlansEnv (sampleBroker DynamicPlans) n = Some (sampleProvider n)" for n
    by (simp add: fetchedProvider_def twoPlansEnv_def sampleEnv_def)
  have m: "mode (sampleBroker DynamicPlans) = DynamicPlans" by (simp add: sampleBroker_def)
  show ?thesis
    by (simp add: uniqueInputs_def m dynamicInputsDistinct_def f two_plan_names ToLower_plans
        isASCII_def)
qed

lemma sample_auto_builds:
  "fst (buildCatalog sampleEnv (sampleBroker MultiGroupAutoPlans)) = Returns None"
  by (simp add: buildCatalog_def providerNames_def Let_def serviceForProvider_def
      publishService_def buildService_def buildPlansForProvider_def buildPlansForProviderAuto_def
      sampleEnv_def sampleProvider_def sampleBroker_def newCatalog_def)

lemma two_run:
  "fst (buildCatalog twoPlansEnv (sampleBroker DynamicPlans)) = Returns None \<and>
   map_option planIDs (catalog (snd (buildCatalog twoPlansEnv (sampleBroker DynamicPlans)))) =
     Some [''aosb-cluster-plan-aws-minimal-plan'', ''aosb-cluster-plan-aws-no-project'',
           ''aosb-cluster-plan-tenant-m2'', ''aosb-cluster-plan-tenant-m5'']"
  by (simp add: buildCatalog_def providerNames_def Let_def serviceForProvider_def
      publishService_def buildService_def buildPlansForProvider_def buildPlansForProviderDynamic_def
      providerCtx_def DefaultCtx_def sampleProvider_def twoPlansEnv_def sampleEnv_def sampleBroker_def
      newCatalog_def tplMinimal_def tplNoProject_def sampleDecode_def planMinimal_def
      planNoProject_def invalidPlan_def declaredProviderName_def dynamicPlan_def planIDs_def
      sharedService_def planID_minimal planID_noproject)

text \<open>
  C2, as the code has it. After a successful build the service IDs of the catalog are pairwise
  different and the plan IDs are pairwise different across the whole catalog (static, auto,
  dynamic and shared plans alike, with or without a whitelist), provided the names from which
  the IDs are derived are ASCII and do not collide: the backend returns each provider under
  the name it was asked for, up to letter case; in BasicAuth mode the instance-size names of
  one provider differ in more than letter case; in MultiGroupAutoPlans mode they do so and
  contain no \<open>-\<close>, and the tenant IDs are pairwise different; in DynamicPlans mode the names
  of the plans that the templates yield for one provider differ in more than letter case. The
  code itself checks none of this.
\<close>

theorem catalog_ids_unique:
  assumes build: "buildCatalog e b = (Returns None, b')" and cat: "catalog b' = Some c"
    and names: "backendKeepsNames e b"
    and inputs: "uniqueInputs e b"
  shows "distinct (map svc_ID (cat_services c)) \<and> distinct (planIDs c)"
proof -
  define ns where "ns = filter (whitelistedProvider b) providerNames"
  define g where "g n = the (catalogEntry e b n)" for n
  from buildCatalog_closed [OF build] cat
  have m: "map Some (cat_services c) = map (catalogEntry e b) ns" by (simp add: ns_def)
  have sub: "set ns \<subseteq> set providerNames" by (auto simp: ns_def)
  have dn: "distinct ns" by (simp add: ns_def providerNames_def)
  have all: "catalogEntry e b n = Some (g n)" if "n \<in> set ns" for n
  proof -
    from that have "catalogEntry e b n \<in> set (map (catalogEntry e b) ns)" by simp
    with m have "catalogEntry e b n \<in> set (map Some (cat_services c))" by simp
    then show ?thesis by (auto simp: g_def)
  qed
  have "map the (map Some (cat_services c)) = map the (map (catalogEntry e b) ns)"
    by (simp only: m)
  then have srv: "cat_services c = map g ns" by (simp add: g_def comp_def)
  note ep = entry_properties [OF _ _ names inputs]
  have ids: "map svc_ID (cat_services c) = map serviceIDForProvider ns"
    unfolding srv using ep(1) [OF _ all] sub by auto
  have "distinct (map serviceIDForProvider ns)"
    unfolding ns_def by (rule distinct_map_filter [OF serviceIDs_distinct])
  with ids have 1: "distinct (map svc_ID (cat_services c))" by simp
  have pl: "planIDs c = concat (map (\<lambda>n. map sp_ID (svc_Plans (g n))) ns)"
    by (simp add: planIDs_def srv comp_def)
  have 2: "distinct (planIDs c)"
    unfolding pl
  proof (rule distinct_concat_tagged [where tag = planTag, OF dn])
    show "\<forall>n\<in>set ns. distinct (map sp_ID (svc_Plans (g n)))"
      using ep(2) [OF _ all] sub by auto
    show "\<forall>n\<in>set ns. \<forall>x\<in>set (map sp_ID (svc_Plans (g n))). planTag x = n"
      using ep(3) [OF _ all] sub by auto
  qed
  from 1 2 show ?thesis ..
qed

theorem catalog_ids_unique_witness:
  "backendKeepsNames sampleEnv (sampleBroker BasicAuth) \<and>
   uniqueInputs sampleEnv (sampleBroker BasicAuth) \<and>
   backendKeepsNames sampleEnv (sampleBroker MultiGroupAutoPlans) \<and>
   uniqueInputs sampleEnv (sampleBroker MultiGroupAutoPlans) \<and>
   backendKeepsNames twoPlansEnv (sampleBroker DynamicPlans) \<and>
   uniqueInputs twoPlansEnv (sampleBroker DynamicPlans) \<and>
   (\<exists>c. catalog (snd (buildCatalog sampleEnv (sampleBroker BasicAuth))) = Some c \<and>
        length (cat_services c) = 4 \<and>
        distinct (map svc_ID (cat_services c)) \<and> distinct (planIDs c)) \<and>
   (\<exists>c. catalog (snd (buildCatalog sampleEnv (sampleBroker MultiGroupAutoPlans))) = Some c \<and>
        length (cat_services c) = 4 \<and>
        distinct (map svc_ID (cat_services c)) \<and> distinct (planIDs c)) \<and>
   (\<exists>c. catalog (snd (buildCatalog twoPlansEnv (sampleBroker DynamicPlans))) = Some c \<and>
        length (cat_services c) = 4 \<and>
        planIDs c = [''aosb-cluster-plan-aws-minimal-plan'', ''aosb-cluster-plan-aws-no-project'',
                     ''aosb-cluster-plan-tenant-m2'', ''aosb-cluster-plan-tenant-m5''] \<and>
        distinct (map svc_ID (cat_services c)) \<and> distinct (planIDs c))"
proof -
  have run: "buildCatalog e (sampleBroker m) = (Returns None, snd (buildCatalog e (sampleBroker m)))"
    if "fst (buildCatalog e (sampleBroker m)) = Returns None" for e m
    using that by (metis prod.collapse)
  have len: "\<exists>c. catalog b' = Some c \<and> length (cat_services c) = 4"
    if "buildCatalog e (sampleBroker m) = (Returns None, b')" for e m b'
  proof -
    from buildCatalog_closed [OF that] obtain c where c: "catalog b' = Some c"
      and s: "map Some (cat_services c) =
        map (catalogEntry e (sampleBroker m))
          (filter (whitelistedProvider (sampleBroker m)) providerNames)" by blast
    have "length (map Some (cat_services c)) = 4"
      unfolding s by (simp add: whitelistedProvider_def sampleBroker_def providerNames_def)
    with c show ?thesis by simp
  qed
  from two_run have r3: "fst (buildCatalog twoPlansEnv (sampleBroker DynamicPlans)) = Returns None"
    by (rule conjunct1)
  from len [OF run [OF sample_static_builds]] obtain c1 where
    c1: "catalog (snd (buildCatalog sampleEnv (sampleBroker BasicAuth))) = Some c1"
    "length (cat_services c1) = 4" by blast
  from len [OF run [OF sample_auto_builds]] obtain c2 where
    c2: "catalog (snd (buildCatalog sampleEnv (sampleBroker MultiGroupAutoPlans))) = Some c2"
    "length (cat_services c2) = 4" by blast
  from len [OF run [OF r3]] obtain c3 where
    c3: "catalog (snd (buildCatalog twoPlansEnv (sampleBroker DynamicPlans))) = Some c3"
    "length (cat_services c3) = 4" by blast
  from two_run c3(1) have p3: "planIDs c3 =
      [''aosb-cluster-plan-aws-minimal-plan'', ''aosb-cluster-plan-aws-no-project'',
       ''aosb-cluster-plan-tenant-m2'', ''aosb-cluster-plan-tenant-m5'']" by simp
  have u1: "distinct (map svc_ID (cat_services c1)) \<and> distinct (planIDs c1)"
    by (rule catalog_ids_unique
        [OF run [OF sample_static_builds] c1(1) sample_names sample_static_inputs])
  have u2: "distinct (map svc_ID (cat_services c2)) \<and> distinct (planIDs c2)"
    by (rule catalog_ids_unique
        [OF run [OF sample_auto_builds] c2(1) sample_names sample_auto_inputs])
  have u3: "distinct (map svc_ID (cat_services c3)) \<and> distinct (planIDs c3)"
    by (rule catalog_ids_unique [OF run [OF r3] c3(1) two_names two_dynamic_inputs])
  from c1 c2 c3 p3 u1 u2 u3 sample_names two_names sample_static_inputs sample_auto_inputs
    two_dynamic_inputs
  show ?thesis by blast
qed

text \<open>
  C2 as stated fails: in DynamicPlans mode two template files whose plans carry the same
  name give the AWS service two plans with the same ID, and the build succeeds.
\<close>

theorem duplicate_template_names_collide:
  "fst (buildCatalog copyEnv (sampleBroker DynamicPlans)) = Returns None \<and>
   map_option planIDs (catalog (snd (buildCatalog copyEnv (sampleBroker DynamicPlans)))) =
     Some [''aosb-cluster-plan-aws-minimal-plan'', ''aosb-cluster-plan-aws-minimal-plan'',
           ''aosb-cluster-plan-tenant-m2'', ''aosb-cluster-plan-tenant-m5''] \<and>
   \<not> distinct [''aosb-cluster-plan-aws-minimal-plan'', ''aosb-cluster-plan-aws-minimal-plan'',
           ''aosb-cluster-plan-tenant-m2'', ''aosb-cluster-plan-tenant-m5'']"
  using copy_run by simp

end
